theory Spec2Isabelle
  imports Main
begin

section \<open>pino-toolkit: configuration, sink resolution and the logger singleton\<close>

text \<open>
  A shallow embedding of the module \<^verbatim>\<open>src/index.ts\<close> of pino-toolkit. A JavaScript
  object with optional keys is a record of \<open>option\<close> fields (\<open>None\<close>: the key is
  absent) or, where the key order
  matters (\<^verbatim>\<open>Object.entries\<close>, object spread), an association list with distinct
  keys in insertion order. Values are those of the declared TypeScript types: a key
  that is present holds a value of its type.

  Two kinds of JavaScript object are therefore not values of the model, and no
  statement below speaks of them. An object with a key that is present and holds
  \<^verbatim>\<open>undefined\<close> (optional keys admit it): in a spread such a key overrides the default
  with \<^verbatim>\<open>undefined\<close>, and such an entry of \<open>levelFiles\<close> makes the \<^verbatim>\<open>forEach\<close>
  callback of \<^verbatim>\<open>createStreams\<close> throw a \<^verbatim>\<open>TypeError\<close> at \<^verbatim>\<open>levelConfig.enabled\<close>.
  And an object whose keys are enumerated in another order than they were inserted:
  JavaScript lists integer-like keys first, in ascending order. The level names are
  not integer-like, and the statements about a log context speak of the value at
  each key.
\<close>

subsection \<open>Core types\<close>

text \<open>\<^verbatim>\<open>type LogLevel = 'fatal' | 'error' | 'warn' | 'info' | 'debug' | 'trace'\<close>\<close>

datatype LogLevel = Fatal | Error | Warn | Info | Debug | Trace

text \<open>The string of a level, as the template literal \<^verbatim>\<open>`${levelName}.log`\<close> reads it.\<close>

fun levelName :: "LogLevel \<Rightarrow> string" where
  "levelName Fatal = ''fatal''"
| "levelName Error = ''error''"
| "levelName Warn = ''warn''"
| "levelName Info = ''info''"
| "levelName Debug = ''debug''"
| "levelName Trace = ''trace''"

text \<open>Values of type \<^verbatim>\<open>unknown\<close> carried in a log context.\<close>

datatype JsValue =
    JNull
  | JBool bool
  | JNum int
  | JStr string
  | JArr "JsValue list"
  | JObj "(string \<times> JsValue) list"

text \<open>\<^verbatim>\<open>type LogContext = Record<string, unknown>\<close>, keys in insertion order.\<close>

type_synonym LogContext = "(string \<times> JsValue) list"

text \<open>\<^verbatim>\<open>type LogMessage = string | Record<string, unknown>\<close>; the constructor is what
  \<^verbatim>\<open>typeof message === 'string'\<close> tests.\<close>

datatype LogMessage = Text string | Fields LogContext

subsection \<open>Object spread\<close>

text \<open>
  Assignment of one own property: an existing key keeps its position and takes the new
  value, a new key is appended.
\<close>

fun assign :: "'k \<Rightarrow> 'v \<Rightarrow> ('k \<times> 'v) list \<Rightarrow> ('k \<times> 'v) list" where
  "assign k v [] = [(k, v)]"
| "assign k v ((k', v') # kvs) =
     (if k = k' then (k, v) # kvs else (k', v') # assign k v kvs)"

text \<open>\<^verbatim>\<open>{ ...a, ...b }\<close>: the properties of \<open>a\<close>, then each property of \<open>b\<close> assigned in
  the order \<open>b\<close> lists them.\<close>

definition spread :: "('k \<times> 'v) list \<Rightarrow> ('k \<times> 'v) list \<Rightarrow> ('k \<times> 'v) list" where
  "spread a b = fold (\<lambda>(k, v) acc. assign k v acc) b a"

text \<open>\<^verbatim>\<open>{ ...a, ...b }\<close> at one key that \<open>a\<close> always has and \<open>b\<close> may lack.\<close>

definition override :: "'a \<Rightarrow> 'a option \<Rightarrow> 'a" where
  "override d c = (case c of None \<Rightarrow> d | Some v \<Rightarrow> v)"

subsection \<open>Configuration types\<close>

text \<open>\<^verbatim>\<open>interface RotationConfig { interval: string; size: string; maxFiles: number }\<close>\<close>

record RotationConfig =
  interval :: string
  rsize :: string
  maxFiles :: int

text \<open>\<^verbatim>\<open>Partial<RotationConfig>\<close>: each key may be absent.\<close>

record PartialRotationConfig =
  p_interval :: "string option"
  p_rsize :: "string option"
  p_maxFiles :: "int option"

text \<open>\<^verbatim>\<open>interface LevelFileConfig { enabled: boolean; destination?: string }\<close>\<close>

record LevelFileConfig =
  enabled :: bool
  level_destination :: "string option"

text \<open>\<^verbatim>\<open>interface RedactionConfig { paths: string[]; censor?: string }\<close>\<close>

record RedactionConfig =
  paths :: "string list"
  censor :: "string option"

text \<open>\<^verbatim>\<open>Record<string, (value: any) => any>\<close>\<close>

type_synonym Serializers = "(string \<times> (JsValue \<Rightarrow> JsValue)) list"

text \<open>\<^verbatim>\<open>interface LoggerConfig\<close>: every key optional. \<open>levelFiles\<close> is a
  \<^verbatim>\<open>Partial<Record<LogLevel, LevelFileConfig>>\<close>: the keys the caller wrote, in the
  order the caller wrote them.\<close>

record LoggerConfig =
  level :: "LogLevel option"
  prettyPrint :: "bool option"
  destination :: "string option"
  rotation :: "PartialRotationConfig option"
  levelFiles :: "(LogLevel \<times> LevelFileConfig) list option"
  redaction :: "RedactionConfig option"
  baseContext :: "LogContext option"
  serializers :: "Serializers option"

text \<open>\<^verbatim>\<open>interface DefaultConfig\<close>: the five keys that \<^verbatim>\<open>defaultConfig\<close> sets; it sets
  neither \<open>redaction\<close>, \<open>baseContext\<close> nor \<open>serializers\<close>.\<close>

record DefaultConfig =
  default_level :: LogLevel
  default_prettyPrint :: bool
  default_destination :: string
  default_rotation :: RotationConfig
  default_levelFiles :: "(LogLevel \<times> LevelFileConfig) list"

text \<open>
  What the module reads from outside when it is loaded: \<^verbatim>\<open>process.env.NODE_ENV\<close>,
  \<^verbatim>\<open>process.cwd()\<close>, and the two functions imported from \<^verbatim>\<open>pathe\<close>, which are not
  part of the repository and are taken as parameters.
\<close>

record Env =
  NODE_ENV :: "string option"
  cwd :: string
  join :: "string list \<Rightarrow> string"
  dirname :: "string \<Rightarrow> string"

text \<open>\<^verbatim>\<open>const defaultConfig: DefaultConfig = { ... }\<close>\<close>

definition defaultConfig :: "Env \<Rightarrow> DefaultConfig" where
  "defaultConfig env =
     \<lparr> default_level = Info,
       default_prettyPrint = (NODE_ENV env \<noteq> Some ''production''),
       default_destination = join env [cwd env, ''logs'', ''app.log''],
       default_rotation = \<lparr> interval = ''1d'', rsize = ''10M'', maxFiles = 5 \<rparr>,
       default_levelFiles =
         [ (Fatal, \<lparr> enabled = True, level_destination = None \<rparr>),
           (Error, \<lparr> enabled = True, level_destination = None \<rparr>),
           (Warn, \<lparr> enabled = False, level_destination = None \<rparr>),
           (Info, \<lparr> enabled = False, level_destination = None \<rparr>),
           (Debug, \<lparr> enabled = False, level_destination = None \<rparr>),
           (Trace, \<lparr> enabled = False, level_destination = None \<rparr>) ] \<rparr>"

text \<open>\<^verbatim>\<open>{ ...defaultConfig.rotation, ...rotation }\<close> with \<open>rotation\<close> possibly undefined
  (spreading \<^verbatim>\<open>undefined\<close> adds nothing).\<close>

definition spread_rotation ::
  "RotationConfig \<Rightarrow> PartialRotationConfig option \<Rightarrow> RotationConfig" where
  "spread_rotation d r =
     (case r of
        None \<Rightarrow> d
      | Some p \<Rightarrow>
          \<lparr> interval = override (interval d) (p_interval p),
            rsize = override (rsize d) (p_rsize p),
            maxFiles = override (maxFiles d) (p_maxFiles p) \<rparr>)"

text \<open>A full rotation record read at the type \<^verbatim>\<open>Partial<RotationConfig>\<close>.\<close>

definition as_partial :: "RotationConfig \<Rightarrow> PartialRotationConfig" where
  "as_partial r =
     \<lparr> p_interval = Some (interval r), p_rsize = Some (rsize r),
       p_maxFiles = Some (maxFiles r) \<rparr>"

subsection \<open>Stream descriptors\<close>

text \<open>The options object handed to \<^verbatim>\<open>pino.transport\<close> with target
  \<^verbatim>\<open>'pino-roll'\<close>.\<close>

record RollOptions =
  roll_file :: string
  roll_frequency :: string
  roll_size :: string
  roll_maxFiles :: int
  roll_mkdir :: bool
  roll_dirname :: "string option"

text \<open>\<^verbatim>\<open>pino.transport({ target, options })\<close>: the target with its options. The options
  of \<^verbatim>\<open>'pino-pretty'\<close> are the same four constants at every call.\<close>

datatype Transport = PinoPretty | PinoRoll RollOptions

text \<open>
  \<^verbatim>\<open>interface PinoDestination { level: string; stream; filter?: (obj: any) => boolean }\<close>.
  The only filter the module builds is
  \<^verbatim>\<open>(obj) => obj.level === pino.levels.values[level]\<close>; \<open>Some l\<close> stands for that
  closure over \<open>l\<close>, \<open>None\<close> for no \<open>filter\<close> key.
\<close>

record PinoDestination =
  stream_level :: LogLevel
  stream :: Transport
  stream_filter :: "LogLevel option"

text \<open>\<^verbatim>\<open>function createPrettyStream(level)\<close>\<close>

definition createPrettyStream :: "LogLevel \<Rightarrow> PinoDestination" where
  "createPrettyStream lvl =
     \<lparr> stream_level = lvl, stream = PinoPretty, stream_filter = None \<rparr>"

text \<open>\<^verbatim>\<open>function createRotationStream(config, level)\<close>. Of \<^verbatim>\<open>mergedConfig\<close> only the
  \<open>rotation\<close> key is read.\<close>

definition createRotationStream :: "Env \<Rightarrow> LoggerConfig \<Rightarrow> LogLevel \<Rightarrow> PinoDestination" where
  "createRotationStream env config lvl =
     (let mergedRotation = spread_rotation (default_rotation (defaultConfig env)) (rotation config);
          dest = override (default_destination (defaultConfig env)) (destination config);
          dirPath = dirname env dest
      in \<lparr> stream_level = lvl,
           stream = PinoRoll
             \<lparr> roll_file = dest,
               roll_frequency = interval mergedRotation,
               roll_size = rsize mergedRotation,
               roll_maxFiles = maxFiles mergedRotation,
               roll_mkdir = True,
               roll_dirname = Some dirPath \<rparr>,
           stream_filter = None \<rparr>)"

text \<open>\<^verbatim>\<open>function createLevelStream(level, destination, rotation?)\<close>\<close>

definition createLevelStream ::
  "Env \<Rightarrow> LogLevel \<Rightarrow> string \<Rightarrow> PartialRotationConfig option \<Rightarrow> PinoDestination" where
  "createLevelStream env lvl dest rot =
     (let mergedRotation = spread_rotation (default_rotation (defaultConfig env)) rot
      in \<lparr> stream_level = lvl,
           stream = PinoRoll
             \<lparr> roll_file = dest,
               roll_frequency = interval mergedRotation,
               roll_size = rsize mergedRotation,
               roll_maxFiles = maxFiles mergedRotation,
               roll_mkdir = True,
               roll_dirname = None \<rparr>,
           stream_filter = Some lvl \<rparr>)"

text \<open>The body of the \<^verbatim>\<open>forEach\<close> callback of \<^verbatim>\<open>createStreams\<close>: the streams pushed
  for one entry of \<^verbatim>\<open>Object.entries(config.levelFiles)\<close>.\<close>

definition levelFileStreams ::
  "Env \<Rightarrow> LoggerConfig \<Rightarrow> LogLevel \<times> LevelFileConfig \<Rightarrow> PinoDestination list" where
  "levelFileStreams env config entry =
     (case entry of (lvl, levelConfig) \<Rightarrow>
        if enabled levelConfig then
          (let baseDir = dirname env
                 (override (default_destination (defaultConfig env)) (destination config));
               dest = override (join env [baseDir, levelName lvl @ ''.log''])
                 (level_destination levelConfig)
           in [createLevelStream env lvl dest (rotation config)])
        else [])"

text \<open>\<^verbatim>\<open>function createStreams(config)\<close>. A boolean is truthy when it is \<^verbatim>\<open>true\<close>, a
  string when it is not empty, an object always; an absent key is falsy.\<close>

definition createStreams :: "Env \<Rightarrow> LoggerConfig \<Rightarrow> PinoDestination list" where
  "createStreams env config =
     (let lvl = override (default_level (defaultConfig env)) (level config)
      in (if prettyPrint config = Some True then [createPrettyStream lvl] else [])
         @ (if destination config \<noteq> None \<and> destination config \<noteq> Some []
            then [createRotationStream env config lvl] else [])
         @ (case levelFiles config of
              None \<Rightarrow> []
            | Some entries \<Rightarrow> concat (map (levelFileStreams env config) entries)))"

subsection \<open>The logger object\<close>

text \<open>The keys of pino's \<^verbatim>\<open>LoggerOptions\<close> that \<^verbatim>\<open>initLogger\<close> sets. The \<open>timestamp\<close>
  and \<open>formatters\<close> keys are the same constants at every call and are left out.\<close>

record RedactOptions =
  redact_paths :: "string list"
  redact_censor :: string

record LoggerOptions =
  opt_level :: "LogLevel option"
  base :: LogContext
  opt_serializers :: "Serializers option"
  redact :: "RedactOptions option"

text \<open>
  Modelled from the spec: the \<^verbatim>\<open>Logger\<close> object of the pino library, which is imported
  and not part of the repository. Following the spec's Router
  \<open>{resolvedConfig, sinks, currentLevel}\<close>: the options and the ordered sink list it was
  built from, its mutable \<open>level\<close> property, and the context bound by \<open>child\<close>.
\<close>

record Logger =
  options :: LoggerOptions
  streams :: "PinoDestination list"
  current_level :: LogLevel
  bindings :: LogContext

text \<open>
  Modelled from the spec: \<^verbatim>\<open>pino(options, pino.multistream(streams))\<close> of the pino
  library. The new logger holds the streams in the order given, and its level is
  \<open>options.level\<close> (pino's own default being \<open>info\<close>).
\<close>

definition pino :: "LoggerOptions \<Rightarrow> PinoDestination list \<Rightarrow> Logger" where
  "pino opts dests =
     \<lparr> options = opts, streams = dests,
       current_level = override Info (opt_level opts), bindings = [] \<rparr>"

text \<open>
  Modelled from the spec: \<^verbatim>\<open>logger.child(bindings)\<close> of the pino library. The child
  shares the sink list and the level of its parent and carries the parent's bound
  context with its own bindings on top.
\<close>

definition pino_child :: "Logger \<Rightarrow> LogContext \<Rightarrow> Logger" where
  "pino_child lg bnd = lg\<lparr> bindings := spread (bindings lg) bnd \<rparr>"

text \<open>One call \<^verbatim>\<open>logger[level](obj, msg?)\<close> made on a logger: the logger called, the
  method, and the arguments.\<close>

record LogCall =
  call_logger :: nat
  call_level :: LogLevel
  call_obj :: LogContext
  call_msg :: "string option"

text \<open>
  The state of the module and of the objects it creates: the loggers created so far
  (a reference to a logger is its index), the module variable
  \<^verbatim>\<open>let loggerInstance: Logger | null\<close>, and the calls made on loggers so far.
\<close>

record State =
  heap :: "Logger list"
  loggerInstance :: "nat option"
  calls :: "LogCall list"

text \<open>The state when the module has just been loaded.\<close>

definition init_state :: State where
  "init_state = \<lparr> heap = [], loggerInstance = None, calls = [] \<rparr>"

text \<open>The module variable, when set, refers to a logger that exists.\<close>

definition wf_state :: "State \<Rightarrow> bool" where
  "wf_state s = (case loggerInstance s of None \<Rightarrow> True | Some a \<Rightarrow> a < length (heap s))"

text \<open>A new object: the reference returned is one no earlier object has.\<close>

definition new_logger :: "Logger \<Rightarrow> State \<Rightarrow> nat \<times> State" where
  "new_logger lg s = (length (heap s), s\<lparr> heap := heap s @ [lg] \<rparr>)"

text \<open>The call \<^verbatim>\<open>logger[level](obj, msg?)\<close>.\<close>

definition invoke :: "nat \<Rightarrow> LogLevel \<Rightarrow> LogContext \<Rightarrow> string option \<Rightarrow> State \<Rightarrow> State" where
  "invoke a lvl obj msg s =
     s\<lparr> calls := calls s @
          [\<lparr> call_logger = a, call_level = lvl, call_obj = obj, call_msg = msg \<rparr>] \<rparr>"

subsection \<open>Construction and the singleton\<close>

text \<open>The object \<^verbatim>\<open>{}\<close>.\<close>

definition empty_config :: LoggerConfig where
  "empty_config =
     \<lparr> level = None, prettyPrint = None, destination = None, rotation = None,
       levelFiles = None, redaction = None, baseContext = None, serializers = None \<rparr>"

text \<open>The constant \<^verbatim>\<open>mergedConfig\<close> of \<^verbatim>\<open>initLogger\<close>:
  \<^verbatim>\<open>{ ...defaultConfig, ...config, rotation: { ...defaultConfig.rotation, ...config.rotation },
       levelFiles: { ...defaultConfig.levelFiles, ...config.levelFiles } }\<close>\<close>

definition mergedConfig :: "Env \<Rightarrow> LoggerConfig \<Rightarrow> LoggerConfig" where
  "mergedConfig env config =
     (let d = defaultConfig env
      in \<lparr> level = Some (override (default_level d) (level config)),
           prettyPrint = Some (override (default_prettyPrint d) (prettyPrint config)),
           destination = Some (override (default_destination d) (destination config)),
           rotation = Some (as_partial (spread_rotation (default_rotation d) (rotation config))),
           levelFiles = Some (spread (default_levelFiles d) (override [] (levelFiles config))),
           redaction = redaction config,
           baseContext = baseContext config,
           serializers = serializers config \<rparr>)"

text \<open>The constant \<^verbatim>\<open>options\<close> of \<^verbatim>\<open>initLogger\<close>, built from \<^verbatim>\<open>mergedConfig\<close>.\<close>

definition loggerOptions :: "LoggerConfig \<Rightarrow> LoggerOptions" where
  "loggerOptions merged =
     \<lparr> opt_level = level merged,
       base = override [] (baseContext merged),
       opt_serializers = serializers merged,
       redact =
         (case redaction merged of
            None \<Rightarrow> None
          | Some r \<Rightarrow>
              Some \<lparr> redact_paths = paths r,
                     redact_censor = override ''[REDACTED]'' (censor r) \<rparr>) \<rparr>"

text \<open>\<^verbatim>\<open>function initLogger(config: LoggerConfig = {}): Logger\<close>. An argument that is
  \<^verbatim>\<open>undefined\<close> takes the default \<^verbatim>\<open>{}\<close>. The function has no \<^verbatim>\<open>throw\<close> and tests
  no value of the configuration.\<close>

definition initLogger :: "Env \<Rightarrow> LoggerConfig option \<Rightarrow> State \<Rightarrow> nat \<times> State" where
  "initLogger env config s =
     (let merged = mergedConfig env (override empty_config config)
      in new_logger (pino (loggerOptions merged) (createStreams env merged)) s)"

text \<open>\<^verbatim>\<open>function getLogger(config?: LoggerConfig): Logger\<close>\<close>

definition getLogger :: "Env \<Rightarrow> LoggerConfig option \<Rightarrow> State \<Rightarrow> nat \<times> State" where
  "getLogger env config s =
     (case loggerInstance s of
        None \<Rightarrow>
          (case initLogger env config s of
             (a, s') \<Rightarrow> (a, s'\<lparr> loggerInstance := Some a \<rparr>))
      | Some a \<Rightarrow> (a, s))"

text \<open>\<^verbatim>\<open>function resetLogger(): void\<close>\<close>

definition resetLogger :: "State \<Rightarrow> State" where
  "resetLogger s = s\<lparr> loggerInstance := None \<rparr>"

text \<open>\<^verbatim>\<open>function createLogger(config: LoggerConfig): Logger\<close>\<close>

definition createLogger :: "Env \<Rightarrow> LoggerConfig \<Rightarrow> State \<Rightarrow> nat \<times> State" where
  "createLogger env config s = initLogger env (Some config) s"

text \<open>\<^verbatim>\<open>function setLevel(level: LogLevel): void\<close>: the assignment
  \<^verbatim>\<open>getLogger().level = level\<close> to the object referred to.\<close>

definition setLevel :: "Env \<Rightarrow> LogLevel \<Rightarrow> State \<Rightarrow> State" where
  "setLevel env lvl s =
     (case getLogger env None s of
        (a, s') \<Rightarrow> s'\<lparr> heap := (heap s')[a := (heap s' ! a)\<lparr> current_level := lvl \<rparr>] \<rparr>)"

text \<open>\<^verbatim>\<open>function child(bindings: LogContext): Logger\<close>\<close>

definition child :: "Env \<Rightarrow> LogContext \<Rightarrow> State \<Rightarrow> nat \<times> State" where
  "child env bnd s =
     (case getLogger env None s of
        (a, s') \<Rightarrow> new_logger (pino_child (heap s' ! a) bnd) s')"

subsection \<open>Log functions\<close>

text \<open>\<^verbatim>\<open>function createLogFunction(level)\<close>, applied to the arguments of the function it
  returns. \<^verbatim>\<open>context || {}\<close> is the context when one is given (an object is truthy).\<close>

definition createLogFunction ::
  "Env \<Rightarrow> LogLevel \<Rightarrow> LogMessage \<Rightarrow> LogContext option \<Rightarrow> State \<Rightarrow> State" where
  "createLogFunction env lvl message context s =
     (case getLogger env None s of
        (logger, s') \<Rightarrow>
          (case message of
             Text m \<Rightarrow> invoke logger lvl (override [] context) (Some m) s'
           | Fields f \<Rightarrow> invoke logger lvl (spread f (override [] context)) None s'))"

definition fatal :: "Env \<Rightarrow> LogMessage \<Rightarrow> LogContext option \<Rightarrow> State \<Rightarrow> State" where
  "fatal env = createLogFunction env Fatal"

definition error :: "Env \<Rightarrow> LogMessage \<Rightarrow> LogContext option \<Rightarrow> State \<Rightarrow> State" where
  "error env = createLogFunction env Error"

definition warn :: "Env \<Rightarrow> LogMessage \<Rightarrow> LogContext option \<Rightarrow> State \<Rightarrow> State" where
  "warn env = createLogFunction env Warn"

definition info :: "Env \<Rightarrow> LogMessage \<Rightarrow> LogContext option \<Rightarrow> State \<Rightarrow> State" where
  "info env = createLogFunction env Info"

definition debug :: "Env \<Rightarrow> LogMessage \<Rightarrow> LogContext option \<Rightarrow> State \<Rightarrow> State" where
  "debug env = createLogFunction env Debug"

definition trace :: "Env \<Rightarrow> LogMessage \<Rightarrow> LogContext option \<Rightarrow> State \<Rightarrow> State" where
  "trace env = createLogFunction env Trace"

text \<open>\<^verbatim>\<open>function log(level, message, context?)\<close>\<close>

definition log :: "Env \<Rightarrow> LogLevel \<Rightarrow> LogMessage \<Rightarrow> LogContext option \<Rightarrow> State \<Rightarrow> State" where
  "log env lvl message context s =
     (case getLogger env None s of
        (logger, s') \<Rightarrow>
          (case message of
             Text m \<Rightarrow> invoke logger lvl (override [] context) (Some m) s'
           | Fields f \<Rightarrow> invoke logger lvl (spread f (override [] context)) None s'))"

subsection \<open>Routing\<close>

text \<open>
  Modelled from the spec: the table \<^verbatim>\<open>pino.levels.values\<close> of the pino library, which
  the filter of \<^verbatim>\<open>createLevelStream\<close> names. The spec fixes the order
  fatal > error > warn > info > debug > trace; the numbers are pino's.
\<close>

fun levels_values :: "LogLevel \<Rightarrow> nat" where
  "levels_values Fatal = 60"
| "levels_values Error = 50"
| "levels_values Warn = 40"
| "levels_values Info = 30"
| "levels_values Debug = 20"
| "levels_values Trace = 10"

text \<open>Modelled from the spec: Level Ordering, "given two levels, report whether the
  first is at-least-as-severe as the second".\<close>

definition at_least_as_severe :: "LogLevel \<Rightarrow> LogLevel \<Rightarrow> bool" where
  "at_least_as_severe a b = (levels_values b \<le> levels_values a)"

text \<open>
  The module has no dispatch of its own: a record goes from a logger method to the
  sinks inside the pino library, which is imported and not part of the repository.
  The three definitions below follow what that dispatch reads of the values the module
  builds, in the words of the module's own documentation.

  A logger method for a level below the level of the logger writes nothing: the
  \<open>level\<close> of the configuration is the "Minimum log level to record", and
  \<^verbatim>\<open>setLevel\<close> changes "the logger's minimum level".
\<close>

definition emits :: "Logger \<Rightarrow> LogLevel \<Rightarrow> bool" where
  "emits lg e = at_least_as_severe e (current_level lg)"

text \<open>
  \<^verbatim>\<open>pino.multistream\<close> hands a record to an entry when the entry's own \<open>level\<close> is at
  most the level of the record: the \<open>level\<close> that \<^verbatim>\<open>createPrettyStream\<close>,
  \<^verbatim>\<open>createRotationStream\<close> and \<^verbatim>\<open>createLevelStream\<close> write into the entry is the
  "Minimum log level for this stream". Of an entry the dispatch reads the keys \<open>level\<close>
  and \<open>stream\<close>. The key \<open>filter\<close>, which \<^verbatim>\<open>createLevelStream\<close> writes, is read
  neither by the dispatch nor anywhere in the module.
\<close>

definition admits :: "PinoDestination \<Rightarrow> LogLevel \<Rightarrow> bool" where
  "admits d e = at_least_as_severe e (stream_level d)"

text \<open>The sinks that receive a record of level \<open>e\<close> logged on the logger \<open>lg\<close>, listed in
  the order of the sink list (the order in which they are written to is not modelled).\<close>

definition route :: "Logger \<Rightarrow> LogLevel \<Rightarrow> PinoDestination list" where
  "route lg e = (if emits lg e then filter (\<lambda>d. admits d e) (streams lg) else [])"

subsection \<open>Derived notions and example inputs\<close>

text \<open>The six levels in the order of the keys of \<^verbatim>\<open>defaultConfig.levelFiles\<close>, which is
  the order of severity, most severe first.\<close>

definition all_levels :: "LogLevel list" where
  "all_levels = [Fatal, Error, Warn, Info, Debug, Trace]"

text \<open>\<^verbatim>\<open>mergedConfig.levelFiles[l]\<close>: the entry of a level in the merged map.\<close>

definition levelFile :: "Env \<Rightarrow> LoggerConfig \<Rightarrow> LogLevel \<Rightarrow> LevelFileConfig option" where
  "levelFile env config l = map_of (override [] (levelFiles (mergedConfig env config))) l"

text \<open>Path functions for the examples: segments joined by a slash, and the part of a
  path before its last slash.\<close>

fun posix_join :: "string list \<Rightarrow> string" where
  "posix_join [] = []"
| "posix_join [p] = p"
| "posix_join (p # ps) = p @ ''/'' @ posix_join ps"

definition posix_dirname :: "string \<Rightarrow> string" where
  "posix_dirname p = rev (tl (dropWhile (\<lambda>c. c \<noteq> CHR ''/'') (rev p)))"

text \<open>An environment for the examples: \<^verbatim>\<open>NODE_ENV\<close> unset, working directory
  \<^verbatim>\<open>/srv\<close>.\<close>

definition example_env :: Env where
  "example_env =
     \<lparr> NODE_ENV = None, cwd = ''/srv'', join = posix_join, dirname = posix_dirname \<rparr>"

text \<open>The entries \<^verbatim>\<open>{ enabled: true }\<close> and \<^verbatim>\<open>{ enabled: false }\<close>.\<close>

definition file_on :: LevelFileConfig where
  "file_on = \<lparr> enabled = True, level_destination = None \<rparr>"

definition file_off :: LevelFileConfig where
  "file_off = \<lparr> enabled = False, level_destination = None \<rparr>"

text \<open>A configuration with the pretty console sink off, an empty destination path and
  the two per-level files that are on by default switched off.\<close>

definition quiet_config :: LoggerConfig where
  "quiet_config =
     empty_config
       \<lparr> prettyPrint := Some False,
         destination := Some [],
         levelFiles := Some [(Fatal, file_off), (Error, file_off)] \<rparr>"

text \<open>
  The constraints as the spec of the Configuration Merger words them:
  "\<open>rotation.maxFiles\<close> if present must be a positive integer; redaction \<open>paths\<close> if
  present must be a non-empty list of strings". (The third constraint, that \<open>level\<close> is
  one of the six known levels, holds of every value of the type \<open>LogLevel\<close>.)
\<close>

definition violates_constraints :: "LoggerConfig \<Rightarrow> bool" where
  "violates_constraints config =
     ((case rotation config of
         None \<Rightarrow> False
       | Some r \<Rightarrow> (case p_maxFiles r of None \<Rightarrow> False | Some n \<Rightarrow> n \<le> 0))
      \<or> (case redaction config of None \<Rightarrow> False | Some rd \<Rightarrow> paths rd = []))"

text \<open>A configuration with \<^verbatim>\<open>rotation: { maxFiles: 0 }\<close> and
  \<^verbatim>\<open>redaction: { paths: [] }\<close>.\<close>

definition unchecked_config :: LoggerConfig where
  "unchecked_config =
     empty_config
       \<lparr> rotation := Some \<lparr> p_interval = None, p_rsize = None, p_maxFiles = Some 0 \<rparr>,
         redaction := Some \<lparr> paths = [], censor = None \<rparr> \<rparr>"

text \<open>The logger that \<^verbatim>\<open>initLogger\<close> builds when it is called without a configuration.\<close>

definition default_logger :: "Env \<Rightarrow> Logger" where
  "default_logger env =
     pino (loggerOptions (mergedConfig env empty_config))
          (createStreams env (mergedConfig env empty_config))"

text \<open>
  An operation that took the state \<open>s1\<close> to \<open>s2\<close> worked on the singleton and not on
  the logger \<open>b\<close>: afterwards the module variable refers to a logger other than \<open>b\<close>,
  the logger \<open>b\<close> is as it was, and the logger referred to is the one the variable
  referred to before, or, if there was none, a logger newly built from the default
  configuration; \<open>upd\<close> is what the operation does to that logger.
\<close>

definition on_singleton :: "Env \<Rightarrow> (Logger \<Rightarrow> Logger) \<Rightarrow> nat \<Rightarrow> State \<Rightarrow> State \<Rightarrow> bool" where
  "on_singleton env upd b s1 s2 =
     (case loggerInstance s2 of
        None \<Rightarrow> False
      | Some a \<Rightarrow>
          a \<noteq> b \<and> heap s2 ! b = heap s1 ! b
          \<and> (case loggerInstance s1 of
                None \<Rightarrow> a = length (heap s1) \<and> heap s2 ! a = upd (default_logger env)
              | Some a0 \<Rightarrow> a = a0 \<and> heap s2 ! a = upd (heap s1 ! a0)))"

text \<open>The one call made between \<open>s1\<close> and \<open>s2\<close> is a call of the method \<open>lvl\<close> on the
  logger that the module variable refers to.\<close>

definition called_on_singleton :: "LogLevel \<Rightarrow> State \<Rightarrow> State \<Rightarrow> bool" where
  "called_on_singleton lvl s1 s2 =
     (calls s2 \<noteq> [] \<and> butlast (calls s2) = calls s1
      \<and> Some (call_logger (last (calls s2))) = loggerInstance s2
      \<and> call_level (last (calls s2)) = lvl)"

section \<open>Properties\<close>

subsection \<open>Object spread on association lists\<close>

lemma override_simps: "override d None = d" "override d (Some v) = v"
  by (simp_all add: override_def)

lemma map_of_assign: "map_of (assign k v kvs) = (map_of kvs)(k \<mapsto> v)"
  by (induction kvs) (auto simp: fun_eq_iff)

lemma keys_assign_mem: "k \<in> set (map fst kvs) \<Longrightarrow> map fst (assign k v kvs) = map fst kvs"
  by (induction kvs) force+

lemma map_of_spread: "map_of (spread a b) = map_of a ++ map_of (rev b)"
  unfolding spread_def
  by (induction b arbitrary: a)
     (auto simp: map_of_assign fun_eq_iff map_add_def split: option.splits)

text \<open>Spreading an object whose keys the target already has leaves the key order of the
  target as it is.\<close>

lemma keys_spread:
  "set (map fst b) \<subseteq> set (map fst a) \<Longrightarrow> map fst (spread a b) = map fst a"
  unfolding spread_def
proof (induction b arbitrary: a)
  case Nil
  then show ?case by simp
next
  case (Cons kv b)
  obtain k v where kv: "kv = (k, v)" by (cases kv)
  from Cons.prems kv have k: "k \<in> set (map fst a)" by simp
  have eq: "map fst (assign k v a) = map fst a" by (rule keys_assign_mem[OF k])
  from Cons.prems have "set (map fst b) \<subseteq> set (map fst (assign k v a))"
    unfolding eq by simp
  from Cons.IH[OF this] show ?case using eq kv by simp
qed

lemma alist_by_keys:
  "distinct (map fst xs) \<Longrightarrow> map (\<lambda>k. (k, the (map_of xs k))) (map fst xs) = xs"
proof (induction xs)
  case Nil
  then show ?case by simp
next
  case (Cons p xs)
  obtain k v where p: "p = (k, v)" by (cases p)
  from Cons.prems p have nk: "k \<notin> set (map fst xs)" and d: "distinct (map fst xs)"
    by simp_all
  have "map (\<lambda>k'. (k', the (map_of (p # xs) k'))) (map fst xs)
      = map (\<lambda>k'. (k', the (map_of xs k'))) (map fst xs)"
    using nk p by (intro map_cong) auto
  with Cons.IH[OF d] p show ?case by simp
qed

lemma alist_eqI:
  assumes "map fst xs = map fst ys" and "map_of xs = map_of ys" and "distinct (map fst xs)"
  shows "xs = ys"
proof -
  have "xs = map (\<lambda>k. (k, the (map_of xs k))) (map fst xs)"
    using alist_by_keys[OF assms(3)] by simp
  also have "\<dots> = map (\<lambda>k. (k, the (map_of ys k))) (map fst ys)"
    by (simp only: assms(1,2))
  also have "\<dots> = ys"
    using alist_by_keys[of ys] assms(1,3) by simp
  finally show ?thesis .
qed

lemma map_of_rev_distinct: "distinct (map fst xs) \<Longrightarrow> map_of (rev xs) = map_of xs"
proof (induction xs)
  case Nil
  then show ?case by simp
next
  case (Cons p xs)
  then have nk: "fst p \<notin> fst ` set xs" and IH: "map_of (rev xs) = map_of xs" by simp_all
  have "map_of (rev (p # xs)) = map_of [p] ++ map_of (rev xs)" by (simp add: map_of_append)
  also have "\<dots> = map_of [p] ++ map_of xs" by (simp only: IH)
  also have "\<dots> = map_of (p # xs)"
  proof
    fix x
    have none: "map_of xs (fst p) = None" using nk by (simp add: map_of_eq_None_iff)
    show "(map_of [p] ++ map_of xs) x = map_of (p # xs) x"
      using none by (cases "x = fst p") (auto simp: map_add_def split: option.splits)
  qed
  finally show ?case .
qed

text \<open>Iterating over the entries of an object with distinct keys is iterating over its
  keys and looking each one up.\<close>

lemma concat_map_by_keys:
  "distinct (map fst xs) \<Longrightarrow>
   concat (map f xs) =
   concat (map (\<lambda>k. case map_of xs k of None \<Rightarrow> [] | Some c \<Rightarrow> f (k, c)) (map fst xs))"
proof (induction xs)
  case Nil
  then show ?case by simp
next
  case (Cons p xs)
  obtain k v where p: "p = (k, v)" by (cases p)
  from Cons.prems p have nk: "k \<notin> set (map fst xs)" and d: "distinct (map fst xs)"
    by simp_all
  have "map (\<lambda>k'. case map_of (p # xs) k' of None \<Rightarrow> [] | Some c \<Rightarrow> f (k', c)) (map fst xs)
      = map (\<lambda>k'. case map_of xs k' of None \<Rightarrow> [] | Some c \<Rightarrow> f (k', c)) (map fst xs)"
    using nk p by (intro map_cong) auto
  then have "concat (map (\<lambda>k'. case map_of (p # xs) k' of None \<Rightarrow> [] | Some c \<Rightarrow> f (k', c))
                       (map fst xs))
      = concat (map f xs)"
    using Cons.IH[OF d] by (simp only:)
  moreover have "map_of (p # xs) k = Some v" using p by simp
  ultimately show ?case using p by (simp del: map_map map_of.simps)
qed

subsection \<open>The merged configuration\<close>

lemma set_all_levels: "set all_levels = UNIV"
proof -
  have "l \<in> set all_levels" for l by (cases l) (simp_all add: all_levels_def)
  then show ?thesis by blast
qed

lemma distinct_all_levels: "distinct all_levels"
  by (simp add: all_levels_def)

lemma default_fields:
  "default_level (defaultConfig env) = Info"
  "default_prettyPrint (defaultConfig env) = (NODE_ENV env \<noteq> Some ''production'')"
  "default_destination (defaultConfig env) = join env [cwd env, ''logs'', ''app.log'']"
  "default_rotation (defaultConfig env) = \<lparr> interval = ''1d'', rsize = ''10M'', maxFiles = 5 \<rparr>"
  by (simp_all add: defaultConfig_def)

lemma default_levelFiles_keys: "map fst (default_levelFiles (defaultConfig env)) = all_levels"
  by (simp add: defaultConfig_def all_levels_def)

text \<open>Whatever keys the caller wrote and in whatever order, the merged map has the six
  keys in the order of the defaults.\<close>

lemma merged_levelFiles_keys:
  "map fst (spread (default_levelFiles (defaultConfig env)) u) = all_levels"
proof -
  have "set (map fst u) \<subseteq> set (map fst (default_levelFiles (defaultConfig env)))"
    unfolding default_levelFiles_keys set_all_levels by simp
  from keys_spread[OF this] show ?thesis by (simp only: default_levelFiles_keys)
qed

lemma merged_fields:
  "level (mergedConfig env config) = Some (override Info (level config))"
  "prettyPrint (mergedConfig env config) =
     Some (override (NODE_ENV env \<noteq> Some ''production'') (prettyPrint config))"
  "destination (mergedConfig env config) =
     Some (override (join env [cwd env, ''logs'', ''app.log'']) (destination config))"
  "levelFiles (mergedConfig env config) =
     Some (spread (default_levelFiles (defaultConfig env)) (override [] (levelFiles config)))"
  "redaction (mergedConfig env config) = redaction config"
  "baseContext (mergedConfig env config) = baseContext config"
  "rotation (mergedConfig env config) =
     Some (as_partial (spread_rotation (default_rotation (defaultConfig env)) (rotation config)))"
  by (simp_all add: mergedConfig_def Let_def defaultConfig_def)

lemma spread_permuted:
  assumes "distinct (map fst u)" and "distinct (map fst u')" and "set u' = set u"
  shows "spread (default_levelFiles (defaultConfig env)) u'
       = spread (default_levelFiles (defaultConfig env)) u"
proof (rule alist_eqI)
  show "map fst (spread (default_levelFiles (defaultConfig env)) u')
      = map fst (spread (default_levelFiles (defaultConfig env)) u)"
    by (simp only: merged_levelFiles_keys)
  have "map_of u' = map_of u"
    using assms by (simp add: map_of_inject_set)
  then show "map_of (spread (default_levelFiles (defaultConfig env)) u')
      = map_of (spread (default_levelFiles (defaultConfig env)) u)"
    by (simp only: map_of_spread map_of_rev_distinct[OF assms(1)]
          map_of_rev_distinct[OF assms(2)])
  show "distinct (map fst (spread (default_levelFiles (defaultConfig env)) u'))"
    by (simp only: merged_levelFiles_keys distinct_all_levels)
qed

lemma mergedConfig_permuted:
  assumes "levelFiles config = Some u"
    and "distinct (map fst u)" and "distinct (map fst u')" and "set u' = set u"
  shows "mergedConfig env (config\<lparr> levelFiles := Some u' \<rparr>) = mergedConfig env config"
  using spread_permuted[OF assms(2,3,4), of env] assms(1)
  by (simp add: mergedConfig_def Let_def override_simps)

subsection \<open>The sinks of the merged configuration\<close>

lemma createStreams_merged:
  "createStreams env (mergedConfig env config) =
     (if override (NODE_ENV env \<noteq> Some ''production'') (prettyPrint config)
      then [createPrettyStream (override Info (level config))] else [])
     @ (if override (join env [cwd env, ''logs'', ''app.log'']) (destination config) \<noteq> []
        then [createRotationStream env (mergedConfig env config) (override Info (level config))]
        else [])
     @ concat (map (\<lambda>l. case levelFile env config l of
                          None \<Rightarrow> []
                        | Some c \<Rightarrow> levelFileStreams env (mergedConfig env config) (l, c))
                 [Fatal, Error, Warn, Info, Debug, Trace])"
proof -
  let ?m = "mergedConfig env config"
  let ?lf = "spread (default_levelFiles (defaultConfig env)) (override [] (levelFiles config))"
  have keys: "map fst ?lf = all_levels" by (rule merged_levelFiles_keys)
  then have d: "distinct (map fst ?lf)" by (simp add: distinct_all_levels)
  have lf: "levelFile env config = map_of ?lf"
    by (simp add: levelFile_def fun_eq_iff merged_fields override_def)
  have "concat (map (levelFileStreams env ?m) ?lf) =
        concat (map (\<lambda>l. case levelFile env config l of
                          None \<Rightarrow> []
                        | Some c \<Rightarrow> levelFileStreams env ?m (l, c)) all_levels)"
    using concat_map_by_keys[OF d, of "levelFileStreams env ?m"] unfolding keys lf .
  then have cm: "concat (map (levelFileStreams env ?m) ?lf) =
        concat (map (\<lambda>l. case levelFile env config l of
                          None \<Rightarrow> []
                        | Some c \<Rightarrow> levelFileStreams env ?m (l, c))
                 [Fatal, Error, Warn, Info, Debug, Trace])"
    unfolding all_levels_def .
  show ?thesis
    unfolding createStreams_def Let_def merged_fields default_fields override_simps
      option.simps cm
    by simp
qed

subsection \<open>What initLogger builds\<close>

lemma initLogger_eq:
  "initLogger env config s =
     (length (heap s),
      s\<lparr> heap := heap s @
           [pino (loggerOptions (mergedConfig env (override empty_config config)))
                 (createStreams env (mergedConfig env (override empty_config config)))] \<rparr>)"
  by (simp add: initLogger_def new_logger_def Let_def)

lemma initLogger_streams:
  "initLogger env config s = (a, s') \<Longrightarrow>
   streams (heap s' ! a) = createStreams env (mergedConfig env (override empty_config config))"
  by (auto simp: initLogger_eq pino_def)

lemma levelFile_default:
  "map_of (default_levelFiles (defaultConfig env)) l =
     Some \<lparr> enabled = (l = Fatal \<or> l = Error), level_destination = None \<rparr>"
  by (cases l) (simp_all add: defaultConfig_def)

lemma levelFile_eq:
  "levelFile env config l =
     Some (case map_of (rev (override [] (levelFiles config))) l of
             None \<Rightarrow> \<lparr> enabled = (l = Fatal \<or> l = Error), level_destination = None \<rparr>
           | Some c \<Rightarrow> c)"
  by (simp add: levelFile_def merged_fields override_simps map_of_spread map_add_def
        levelFile_default split: option.splits)

lemma levelFile_given:
  assumes "levelFiles config = Some u" and "distinct (map fst u)" and "(l, c) \<in> set u"
  shows "levelFile env config l = Some c"
proof -
  have "map_of (rev u) l = Some c"
    using assms(2,3) by (simp add: map_of_rev_distinct)
  then show ?thesis by (simp add: levelFile_eq assms(1) override_simps)
qed

lemma levelFile_stream_mem:
  assumes "levelFile env config l = Some c"
  shows "set (levelFileStreams env (mergedConfig env config) (l, c))
         \<subseteq> set (createStreams env (mergedConfig env config))"
proof -
  have "l \<in> set [Fatal, Error, Warn, Info, Debug, Trace]" by (cases l) simp_all
  then have "set (levelFileStreams env (mergedConfig env config) (l, c))
      \<subseteq> set (concat (map (\<lambda>l. case levelFile env config l of
                          None \<Rightarrow> []
                        | Some c \<Rightarrow> levelFileStreams env (mergedConfig env config) (l, c))
                 [Fatal, Error, Warn, Info, Debug, Trace]))"
    using assms by (cases l) auto
  then show ?thesis
    by (subst createStreams_merged) auto
qed


subsection \<open>The fixed order of the sinks\<close>

text \<open>
  Claim C4. The sink list that \<^verbatim>\<open>initLogger\<close> has \<^verbatim>\<open>createStreams\<close> build from the
  merged configuration, and that the new logger holds, is: the pretty console sink
  when \<open>prettyPrint\<close> resolves to true, then the primary file sink when the resolved
  destination is a non-empty path, then, for the levels in the order fatal, error,
  warn, info, debug, trace, the sink of the level when its entry in the merged map is
  enabled. That entry is the one the caller wrote for the level, or else the default
  one. The list is the same for two \<open>levelFiles\<close> objects that hold the same entries in
  different key order.
\<close>

theorem createStreams_fixed_order:
  "createStreams env (mergedConfig env config) =
     (if override (NODE_ENV env \<noteq> Some ''production'') (prettyPrint config)
      then [createPrettyStream (override Info (level config))] else [])
     @ (if override (join env [cwd env, ''logs'', ''app.log'']) (destination config) \<noteq> []
        then [createRotationStream env (mergedConfig env config) (override Info (level config))]
        else [])
     @ concat (map (\<lambda>l. case levelFile env config l of
                          None \<Rightarrow> []
                        | Some c \<Rightarrow>
                            if enabled c
                            then [createLevelStream env l
                                    (override
                                       (join env
                                          [dirname env
                                             (override (join env [cwd env, ''logs'', ''app.log''])
                                                (destination config)),
                                           levelName l @ ''.log''])
                                       (level_destination c))
                                    (rotation (mergedConfig env config))]
                            else [])
                 [Fatal, Error, Warn, Info, Debug, Trace])
   \<and> levelFile env config l =
       Some (case map_of (rev (override [] (levelFiles config))) l of
               None \<Rightarrow> \<lparr> enabled = (l = Fatal \<or> l = Error), level_destination = None \<rparr>
             | Some c \<Rightarrow> c)
   \<and> (case initLogger env (Some config) s of
         (a, s') \<Rightarrow> streams (heap s' ! a) = createStreams env (mergedConfig env config))
   \<and> (levelFiles config = Some u \<and> distinct (map fst u) \<and> distinct (map fst u')
        \<and> set u' = set u
      \<longrightarrow> createStreams env (mergedConfig env (config\<lparr> levelFiles := Some u' \<rparr>))
        = createStreams env (mergedConfig env config))"
proof -
  have unfolded: "levelFileStreams env (mergedConfig env config) (l', c) =
      (if enabled c
       then [createLevelStream env l'
               (override
                  (join env
                     [dirname env
                        (override (join env [cwd env, ''logs'', ''app.log''])
                           (destination config)),
                      levelName l' @ ''.log''])
                  (level_destination c))
               (rotation (mergedConfig env config))]
       else [])" for l' c
    by (simp add: levelFileStreams_def Let_def merged_fields override_simps default_fields)
  have order: "createStreams env (mergedConfig env config) =
     (if override (NODE_ENV env \<noteq> Some ''production'') (prettyPrint config)
      then [createPrettyStream (override Info (level config))] else [])
     @ (if override (join env [cwd env, ''logs'', ''app.log'']) (destination config) \<noteq> []
        then [createRotationStream env (mergedConfig env config) (override Info (level config))]
        else [])
     @ concat (map (\<lambda>l. case levelFile env config l of
                          None \<Rightarrow> []
                        | Some c \<Rightarrow>
                            if enabled c
                            then [createLevelStream env l
                                    (override
                                       (join env
                                          [dirname env
                                             (override (join env [cwd env, ''logs'', ''app.log''])
                                                (destination config)),
                                           levelName l @ ''.log''])
                                       (level_destination c))
                                    (rotation (mergedConfig env config))]
                            else [])
                 [Fatal, Error, Warn, Info, Debug, Trace])"
    by (subst createStreams_merged) (simp only: unfolded)
  obtain a s' where i: "initLogger env (Some config) s = (a, s')"
    by (cases "initLogger env (Some config) s")
  have held: "streams (heap s' ! a) = createStreams env (mergedConfig env config)"
    using initLogger_streams[OF i] by (simp add: override_simps)
  have perm: "createStreams env (mergedConfig env (config\<lparr> levelFiles := Some u' \<rparr>))
        = createStreams env (mergedConfig env config)"
    if "levelFiles config = Some u" "distinct (map fst u)" "distinct (map fst u')"
      "set u' = set u"
    using mergedConfig_permuted[OF that, of env] by simp
  show ?thesis
    using order levelFile_eq[of env config l] held perm by (simp only: i prod.case) blast
qed

theorem createStreams_fixed_order_witness:
  "levelFiles (empty_config\<lparr> levelFiles := Some [(Warn, file_on), (Fatal, file_off)] \<rparr>)
     = Some [(Warn, file_on), (Fatal, file_off)]
   \<and> distinct (map fst [(Warn, file_on), (Fatal, file_off)])
   \<and> distinct (map fst [(Fatal, file_off), (Warn, file_on)])
   \<and> set [(Fatal, file_off), (Warn, file_on)] = set [(Warn, file_on), (Fatal, file_off)]
   \<and> createStreams example_env (mergedConfig example_env
         (empty_config\<lparr> levelFiles := Some [(Fatal, file_off), (Warn, file_on)] \<rparr>))
     = createStreams example_env (mergedConfig example_env
         (empty_config\<lparr> levelFiles := Some [(Warn, file_on), (Fatal, file_off)] \<rparr>))
   \<and> map stream_filter (createStreams example_env (mergedConfig example_env
         (empty_config\<lparr> levelFiles := Some [(Warn, file_on), (Fatal, file_off)] \<rparr>)))
     = [None, None, Some Error, Some Warn]"
proof -
  let ?c = "empty_config\<lparr> levelFiles := Some [(Warn, file_on), (Fatal, file_off)] \<rparr>"
  note T = createStreams_fixed_order[where env = example_env and s = init_state and l = Warn
      and config = ?c and u = "[(Warn, file_on), (Fatal, file_off)]"
      and u' = "[(Fatal, file_off), (Warn, file_on)]"]
  have c: "levelFiles ?c = Some [(Warn, file_on), (Fatal, file_off)]"
      "prettyPrint ?c = None" "destination ?c = None"
    by (simp_all add: empty_config_def)
  have e: "NODE_ENV example_env = None" "join example_env [cwd example_env, ''logs'', ''app.log''] \<noteq> []"
    by (simp_all add: example_env_def)
  have lf: "levelFile example_env ?c l
            = Some (if l = Warn \<or> l = Error then file_on else file_off)" for l
    by (cases l) (simp_all add: levelFile_eq c override_simps file_on_def file_off_def)
  have d: "distinct (map fst [(Warn, file_on), (Fatal, file_off)])"
      "distinct (map fst [(Fatal, file_off), (Warn, file_on)])"
      "set [(Fatal, file_off), (Warn, file_on)] = set [(Warn, file_on), (Fatal, file_off)]"
    by (simp_all add: insert_commute)
  have same: "createStreams example_env (mergedConfig example_env
         (empty_config\<lparr> levelFiles := Some [(Fatal, file_off), (Warn, file_on)] \<rparr>))
     = createStreams example_env (mergedConfig example_env ?c)"
    using T c(1) d by simp
  have en: "enabled file_on" "\<not> enabled file_off"
    by (simp_all add: file_on_def file_off_def)
  have c0: "prettyPrint empty_config = None" "destination empty_config = None"
    by (simp_all add: empty_config_def)
  have filters: "map stream_filter (createStreams example_env (mergedConfig example_env ?c))
     = [None, None, Some Error, Some Warn]"
    by (subst conjunct1[OF T])
       (simp add: c0 e lf en override_simps createPrettyStream_def
          createRotationStream_def createLevelStream_def Let_def)
  show ?thesis
    using c(1) d same filters by (simp only: simp_thms)
qed

subsection \<open>The rotation handed to the sinks\<close>

lemma spread_rotation_as_partial: "spread_rotation d (Some (as_partial r)) = r"
  by (simp add: spread_rotation_def as_partial_def override_simps)

text \<open>Every rotating file sink of \<^verbatim>\<open>createStreams\<close> carries the rotation of the
  configuration it is given, when that rotation has all three keys.\<close>

lemma createStreams_rotation:
  assumes "rotation m = Some (as_partial R)" and "d \<in> set (createStreams env m)"
  shows "case stream d of
           PinoPretty \<Rightarrow> True
         | PinoRoll opts \<Rightarrow>
             roll_frequency opts = interval R \<and> roll_size opts = rsize R
             \<and> roll_maxFiles opts = maxFiles R"
  using assms(2)
  by (auto simp: createStreams_def createPrettyStream_def createRotationStream_def
        levelFileStreams_def createLevelStream_def Let_def assms(1)
        spread_rotation_as_partial
      split: option.splits if_splits)

text \<open>The sink list of the merged configuration, written out: every value that
  \<^verbatim>\<open>createStreams\<close> hands to a sink.\<close>

lemma createStreams_explicit:
  "createStreams env (mergedConfig env config) =
     (let lvl = override Info (level config);
          dest = override (join env [cwd env, ''logs'', ''app.log'']) (destination config);
          R = spread_rotation \<lparr> interval = ''1d'', rsize = ''10M'', maxFiles = 5 \<rparr>
                (rotation config)
      in (if override (NODE_ENV env \<noteq> Some ''production'') (prettyPrint config)
          then [\<lparr> stream_level = lvl, stream = PinoPretty, stream_filter = None \<rparr>] else [])
         @ (if dest \<noteq> []
            then [\<lparr> stream_level = lvl,
                     stream = PinoRoll
                       \<lparr> roll_file = dest, roll_frequency = interval R,
                         roll_size = rsize R, roll_maxFiles = maxFiles R,
                         roll_mkdir = True, roll_dirname = Some (dirname env dest) \<rparr>,
                     stream_filter = None \<rparr>]
            else [])
         @ concat (map (\<lambda>l. case levelFile env config l of
                              None \<Rightarrow> []
                            | Some c \<Rightarrow>
                                if enabled c
                                then [\<lparr> stream_level = l,
                                         stream = PinoRoll
                                           \<lparr> roll_file =
                                               override
                                                 (join env [dirname env dest,
                                                            levelName l @ ''.log''])
                                                 (level_destination c),
                                             roll_frequency = interval R,
                                             roll_size = rsize R,
                                             roll_maxFiles = maxFiles R,
                                             roll_mkdir = True, roll_dirname = None \<rparr>,
                                         stream_filter = Some l \<rparr>]
                                else [])
                     [Fatal, Error, Warn, Info, Debug, Trace]))"
proof -
  let ?m = "mergedConfig env config"
  let ?R = "spread_rotation \<lparr> interval = ''1d'', rsize = ''10M'', maxFiles = 5 \<rparr> (rotation config)"
  let ?dest = "override (join env [cwd env, ''logs'', ''app.log'']) (destination config)"
  have rot: "spread_rotation (default_rotation (defaultConfig env)) (rotation ?m) = ?R"
    by (simp add: merged_fields default_fields spread_rotation_as_partial)
  have lfs: "levelFileStreams env ?m (l, c) =
      (if enabled c
       then [\<lparr> stream_level = l,
                stream = PinoRoll
                  \<lparr> roll_file =
                      override (join env [dirname env ?dest, levelName l @ ''.log''])
                        (level_destination c),
                    roll_frequency = interval ?R, roll_size = rsize ?R,
                    roll_maxFiles = maxFiles ?R,
                    roll_mkdir = True, roll_dirname = None \<rparr>,
                stream_filter = Some l \<rparr>]
       else [])" for l c
    by (simp add: levelFileStreams_def createLevelStream_def Let_def rot)
       (simp add: merged_fields override_simps default_fields)
  have prim: "createRotationStream env ?m lvl =
      \<lparr> stream_level = lvl,
        stream = PinoRoll
          \<lparr> roll_file = ?dest, roll_frequency = interval ?R,
            roll_size = rsize ?R, roll_maxFiles = maxFiles ?R,
            roll_mkdir = True, roll_dirname = Some (dirname env ?dest) \<rparr>,
        stream_filter = None \<rparr>" for lvl
    by (simp add: createRotationStream_def Let_def rot)
       (simp add: merged_fields override_simps default_fields)
  show ?thesis
    by (subst createStreams_merged) (simp only: lfs prim createPrettyStream_def Let_def)
qed

lemma example_levelFile:
  "levelFiles config = None \<Longrightarrow>
   levelFile env config l = Some (if l = Fatal \<or> l = Error then file_on else file_off)"
  by (cases l) (simp_all add: levelFile_eq override_simps file_on_def file_off_def)

text \<open>
  Claim C6. When the \<open>rotation\<close> object of the input has the single key
  \<^verbatim>\<open>size: "50M"\<close>, the rotation of the merged configuration is
  \<^verbatim>\<open>{ interval: "1d", size: "50M", maxFiles: 5 }\<close>, and the sink list of the logger that
  \<^verbatim>\<open>initLogger\<close> builds is the pretty console sink, which takes no rotation policy, the
  primary file sink and the sinks of the enabled per-level files, each of these file
  sinks handed exactly the three values.
\<close>

theorem rotation_size_only:
  assumes "rotation config =
             Some \<lparr> p_interval = None, p_rsize = Some ''50M'', p_maxFiles = None \<rparr>"
  shows "rotation (mergedConfig env config)
           = Some \<lparr> p_interval = Some ''1d'', p_rsize = Some ''50M'', p_maxFiles = Some 5 \<rparr>
       \<and> (case initLogger env (Some config) s of
            (a, s') \<Rightarrow>
              streams (heap s' ! a) =
                (let lvl = override Info (level config);
                     dest = override (join env [cwd env, ''logs'', ''app.log''])
                              (destination config)
                 in (if override (NODE_ENV env \<noteq> Some ''production'') (prettyPrint config)
                     then [\<lparr> stream_level = lvl, stream = PinoPretty,
                              stream_filter = None \<rparr>]
                     else [])
                    @ (if dest \<noteq> []
                       then [\<lparr> stream_level = lvl,
                                stream = PinoRoll
                                  \<lparr> roll_file = dest, roll_frequency = ''1d'',
                                    roll_size = ''50M'', roll_maxFiles = 5,
                                    roll_mkdir = True,
                                    roll_dirname = Some (dirname env dest) \<rparr>,
                                stream_filter = None \<rparr>]
                       else [])
                    @ concat (map (\<lambda>l. case levelFile env config l of
                                         None \<Rightarrow> []
                                       | Some c \<Rightarrow>
                                           if enabled c
                                           then [\<lparr> stream_level = l,
                                                    stream = PinoRoll
                                                      \<lparr> roll_file =
                                                          override
                                                            (join env [dirname env dest,
                                                               levelName l @ ''.log''])
                                                            (level_destination c),
                                                        roll_frequency = ''1d'',
                                                        roll_size = ''50M'',
                                                        roll_maxFiles = 5,
                                                        roll_mkdir = True,
                                                        roll_dirname = None \<rparr>,
                                                    stream_filter = Some l \<rparr>]
                                           else [])
                                [Fatal, Error, Warn, Info, Debug, Trace]))
              \<and> (\<forall>d \<in> set (streams (heap s' ! a)).
                    case stream d of
                      PinoPretty \<Rightarrow> True
                    | PinoRoll opts \<Rightarrow>
                        roll_frequency opts = ''1d'' \<and> roll_size opts = ''50M''
                        \<and> roll_maxFiles opts = 5))"
proof -
  let ?R = "\<lparr> interval = ''1d'', rsize = ''50M'', maxFiles = 5 \<rparr>"
  have R0: "spread_rotation \<lparr> interval = ''1d'', rsize = ''10M'', maxFiles = 5 \<rparr>
              (rotation config) = ?R"
    by (simp add: assms spread_rotation_def override_simps)
  have R: "spread_rotation (default_rotation (defaultConfig env)) (rotation config) = ?R"
    by (simp only: default_fields R0)
  have m: "rotation (mergedConfig env config) = Some (as_partial ?R)"
    by (simp only: merged_fields R)
  have 1: "rotation (mergedConfig env config)
           = Some \<lparr> p_interval = Some ''1d'', p_rsize = Some ''50M'', p_maxFiles = Some 5 \<rparr>"
    by (simp add: m as_partial_def)
  have 2: "case stream d of
             PinoPretty \<Rightarrow> True
           | PinoRoll opts \<Rightarrow>
               roll_frequency opts = ''1d'' \<and> roll_size opts = ''50M''
               \<and> roll_maxFiles opts = 5"
    if "d \<in> set (createStreams env (mergedConfig env config))" for d
    using createStreams_rotation[OF m that] by (cases "stream d") simp_all
  obtain a s' where i: "initLogger env (Some config) s = (a, s')"
    by (cases "initLogger env (Some config) s")
  have st: "streams (heap s' ! a) = createStreams env (mergedConfig env config)"
    using initLogger_streams[OF i] by (simp add: override_simps)
  have 3: "streams (heap s' ! a) =
                (let lvl = override Info (level config);
                     dest = override (join env [cwd env, ''logs'', ''app.log''])
                              (destination config)
                 in (if override (NODE_ENV env \<noteq> Some ''production'') (prettyPrint config)
                     then [\<lparr> stream_level = lvl, stream = PinoPretty,
                              stream_filter = None \<rparr>]
                     else [])
                    @ (if dest \<noteq> []
                       then [\<lparr> stream_level = lvl,
                                stream = PinoRoll
                                  \<lparr> roll_file = dest, roll_frequency = ''1d'',
                                    roll_size = ''50M'', roll_maxFiles = 5,
                                    roll_mkdir = True,
                                    roll_dirname = Some (dirname env dest) \<rparr>,
                                stream_filter = None \<rparr>]
                       else [])
                    @ concat (map (\<lambda>l. case levelFile env config l of
                                         None \<Rightarrow> []
                                       | Some c \<Rightarrow>
                                           if enabled c
                                           then [\<lparr> stream_level = l,
                                                    stream = PinoRoll
                                                      \<lparr> roll_file =
                                                          override
                                                            (join env [dirname env dest,
                                                               levelName l @ ''.log''])
                                                            (level_destination c),
                                                        roll_frequency = ''1d'',
                                                        roll_size = ''50M'',
                                                        roll_maxFiles = 5,
                                                        roll_mkdir = True,
                                                        roll_dirname = None \<rparr>,
                                                    stream_filter = Some l \<rparr>]
                                           else [])
                                [Fatal, Error, Warn, Info, Debug, Trace]))"
    unfolding st by (subst createStreams_explicit) (simp only: Let_def R0 RotationConfig.simps)
  show ?thesis
    using 1 2 3 unfolding i prod.case st by blast
qed

theorem rotation_size_only_witness:
  "rotation (empty_config\<lparr> rotation :=
       Some \<lparr> p_interval = None, p_rsize = Some ''50M'', p_maxFiles = None \<rparr> \<rparr>)
     = Some \<lparr> p_interval = None, p_rsize = Some ''50M'', p_maxFiles = None \<rparr>
   \<and> rotation (mergedConfig example_env
        (empty_config\<lparr> rotation :=
           Some \<lparr> p_interval = None, p_rsize = Some ''50M'', p_maxFiles = None \<rparr> \<rparr>))
     = Some \<lparr> p_interval = Some ''1d'', p_rsize = Some ''50M'', p_maxFiles = Some 5 \<rparr>
   \<and> streams (heap (snd (initLogger example_env
        (Some (empty_config\<lparr> rotation :=
           Some \<lparr> p_interval = None, p_rsize = Some ''50M'', p_maxFiles = None \<rparr> \<rparr>))
        init_state)) ! 0)
     = [\<lparr> stream_level = Info, stream = PinoPretty, stream_filter = None \<rparr>,
        \<lparr> stream_level = Info,
          stream = PinoRoll
            \<lparr> roll_file = ''/srv/logs/app.log'', roll_frequency = ''1d'',
              roll_size = ''50M'', roll_maxFiles = 5, roll_mkdir = True,
              roll_dirname = Some ''/srv/logs'' \<rparr>,
          stream_filter = None \<rparr>,
        \<lparr> stream_level = Fatal,
          stream = PinoRoll
            \<lparr> roll_file = ''/srv/logs/fatal.log'', roll_frequency = ''1d'',
              roll_size = ''50M'', roll_maxFiles = 5, roll_mkdir = True,
              roll_dirname = None \<rparr>,
          stream_filter = Some Fatal \<rparr>,
        \<lparr> stream_level = Error,
          stream = PinoRoll
            \<lparr> roll_file = ''/srv/logs/error.log'', roll_frequency = ''1d'',
              roll_size = ''50M'', roll_maxFiles = 5, roll_mkdir = True,
              roll_dirname = None \<rparr>,
          stream_filter = Some Error \<rparr>]"
proof -
  let ?c = "empty_config\<lparr> rotation :=
       Some \<lparr> p_interval = None, p_rsize = Some ''50M'', p_maxFiles = None \<rparr> \<rparr>"
  have r: "rotation ?c = Some \<lparr> p_interval = None, p_rsize = Some ''50M'', p_maxFiles = None \<rparr>"
    by simp
  note T = rotation_size_only[OF r, where env = example_env and s = init_state]
  obtain s1 where i: "initLogger example_env (Some ?c) init_state = (0, s1)"
    by (simp add: initLogger_eq init_state_def)
  have c0: "prettyPrint empty_config = None" "destination empty_config = None"
      "level empty_config = None" "levelFiles ?c = None" "levelFiles empty_config = None"
    by (simp_all add: empty_config_def)
  have en: "enabled file_on" "\<not> enabled file_off"
      "level_destination file_on = None"
    by (simp_all add: file_on_def file_off_def)
  have e: "NODE_ENV example_env = None" "cwd example_env = ''/srv''"
      "join example_env = posix_join" "dirname example_env = posix_dirname"
    by (simp_all add: example_env_def)
  have st: "streams (heap s1 ! 0) =
      [\<lparr> stream_level = Info, stream = PinoPretty, stream_filter = None \<rparr>,
        \<lparr> stream_level = Info,
          stream = PinoRoll
            \<lparr> roll_file = ''/srv/logs/app.log'', roll_frequency = ''1d'',
              roll_size = ''50M'', roll_maxFiles = 5, roll_mkdir = True,
              roll_dirname = Some ''/srv/logs'' \<rparr>,
          stream_filter = None \<rparr>,
        \<lparr> stream_level = Fatal,
          stream = PinoRoll
            \<lparr> roll_file = ''/srv/logs/fatal.log'', roll_frequency = ''1d'',
              roll_size = ''50M'', roll_maxFiles = 5, roll_mkdir = True,
              roll_dirname = None \<rparr>,
          stream_filter = Some Fatal \<rparr>,
        \<lparr> stream_level = Error,
          stream = PinoRoll
            \<lparr> roll_file = ''/srv/logs/error.log'', roll_frequency = ''1d'',
              roll_size = ''50M'', roll_maxFiles = 5, roll_mkdir = True,
              roll_dirname = None \<rparr>,
          stream_filter = Some Error \<rparr>]"
    using T unfolding i prod.case
    by (simp add: Let_def c0 e en override_simps example_levelFile posix_dirname_def)
  show ?thesis
    using r conjunct1[OF T] st by (simp only: i snd_conv simp_thms)
qed

subsection \<open>Per-level files without a primary destination\<close>

text \<open>
  Claim C7. When the input names no \<open>destination\<close> and its \<open>levelFiles\<close> object enables
  a level with no \<open>destination\<close> of its own, the logger that \<^verbatim>\<open>initLogger\<close> builds has
  a sink for that level, filtered on that level, whose file is
  \<^verbatim>\<open>join(dirname(defaultConfig.destination), `${levelName}.log`)\<close>: the file named
  after the level in the directory of the default primary destination.
\<close>

theorem level_file_default_directory:
  assumes "destination config = None"
    and "levelFiles config = Some u" and "distinct (map fst u)" and "(l, c) \<in> set u"
    and "enabled c" and "level_destination c = None"
  shows "case initLogger env (Some config) s of
           (a, s') \<Rightarrow>
             \<exists>d \<in> set (streams (heap s' ! a)).
               stream_level d = l \<and> stream_filter d = Some l
               \<and> (\<exists>opts. stream d = PinoRoll opts
                      \<and> roll_file opts =
                          join env [dirname env (default_destination (defaultConfig env)),
                                    levelName l @ ''.log''])"
proof -
  let ?m = "mergedConfig env config"
  let ?d = "createLevelStream env l
              (join env [dirname env (default_destination (defaultConfig env)),
                         levelName l @ ''.log''])
              (rotation ?m)"
  have lf: "levelFile env config l = Some c"
    by (rule levelFile_given[OF assms(2,3,4)])
  have "levelFileStreams env ?m (l, c) = [?d]"
    by (simp add: levelFileStreams_def Let_def assms(1,5,6) merged_fields override_simps
          default_fields)
  with levelFile_stream_mem[OF lf] have mem: "?d \<in> set (createStreams env ?m)" by simp
  have props: "stream_level ?d = l \<and> stream_filter ?d = Some l
      \<and> (\<exists>opts. stream ?d = PinoRoll opts
            \<and> roll_file opts =
                join env [dirname env (default_destination (defaultConfig env)),
                          levelName l @ ''.log''])"
    by (simp add: createLevelStream_def Let_def)
  obtain a s' where i: "initLogger env (Some config) s = (a, s')"
    by (cases "initLogger env (Some config) s")
  have "streams (heap s' ! a) = createStreams env ?m"
    using initLogger_streams[OF i] by (simp add: override_simps)
  with mem props i show ?thesis by auto
qed

theorem level_file_default_directory_witness:
  "destination (empty_config\<lparr> levelFiles := Some [(Warn, file_on)] \<rparr>) = None
   \<and> levelFiles (empty_config\<lparr> levelFiles := Some [(Warn, file_on)] \<rparr>)
       = Some [(Warn, file_on)]
   \<and> distinct (map fst [(Warn, file_on)])
   \<and> (Warn, file_on) \<in> set [(Warn, file_on)]
   \<and> enabled file_on \<and> level_destination file_on = None
   \<and> (\<exists>d \<in> set (streams (heap (snd (initLogger example_env
           (Some (empty_config\<lparr> levelFiles := Some [(Warn, file_on)] \<rparr>)) init_state)) ! 0)).
         stream_level d = Warn \<and> stream_filter d = Some Warn
         \<and> (\<exists>opts. stream d = PinoRoll opts \<and> roll_file opts = ''/srv/logs/warn.log''))"
  using level_file_default_directory[where env = example_env and s = init_state
      and config = "empty_config\<lparr> levelFiles := Some [(Warn, file_on)] \<rparr>"
      and u = "[(Warn, file_on)]" and l = Warn and c = file_on]
  by (simp add: empty_config_def initLogger_eq init_state_def example_env_def
        defaultConfig_def posix_dirname_def file_on_def)

subsection \<open>The empty sink list\<close>

lemma levelFileStreams_Nil: "levelFileStreams env m entry = [] \<longleftrightarrow> \<not> enabled (snd entry)"
  by (cases entry) (simp add: levelFileStreams_def Let_def)

lemma createStreams_Nil:
  "createStreams env m = [] \<longleftrightarrow>
     prettyPrint m \<noteq> Some True
     \<and> (destination m = None \<or> destination m = Some [])
     \<and> (\<forall>entry \<in> set (override [] (levelFiles m)). \<not> enabled (snd entry))"
  by (cases "levelFiles m")
     (auto simp: createStreams_def Let_def override_simps levelFileStreams_Nil)

lemma route_Nil: "streams lg = [] \<Longrightarrow> route lg e = []"
  by (simp add: route_def)

lemma quiet_streams: "createStreams env (mergedConfig env quiet_config) = []"
  by (simp add: createStreams_Nil merged_fields quiet_config_def empty_config_def
        override_simps spread_def defaultConfig_def file_off_def)

text \<open>
  Claim C9. \<^verbatim>\<open>createStreams\<close> returns the empty list exactly when \<open>prettyPrint\<close> is not
  true, the destination is absent or the empty path, and no entry of \<open>levelFiles\<close> is
  enabled. For a configuration whose merged form is such, \<^verbatim>\<open>initLogger\<close> still
  returns a new logger; its sink list is empty and routing an event of any level
  reaches no sink. \<open>quiet_config\<close> is such a configuration.
\<close>

theorem empty_sink_list_legal:
  "(createStreams env m = [] \<longleftrightarrow>
      prettyPrint m \<noteq> Some True
      \<and> (destination m = None \<or> destination m = Some [])
      \<and> (\<forall>entry \<in> set (override [] (levelFiles m)). \<not> enabled (snd entry)))
   \<and> (createStreams env (mergedConfig env config) = [] \<longrightarrow>
        (case initLogger env (Some config) s of
           (a, s') \<Rightarrow>
             a = length (heap s) \<and> length (heap s') = Suc (length (heap s))
             \<and> streams (heap s' ! a) = [] \<and> (\<forall>e. route (heap s' ! a) e = [])))
   \<and> createStreams env (mergedConfig env quiet_config) = []"
proof -
  have "case initLogger env (Some config) s of
           (a, s') \<Rightarrow>
             a = length (heap s) \<and> length (heap s') = Suc (length (heap s))
             \<and> streams (heap s' ! a) = [] \<and> (\<forall>e. route (heap s' ! a) e = [])"
    if "createStreams env (mergedConfig env config) = []"
    using that by (simp add: initLogger_eq override_simps pino_def route_def)
  then show ?thesis
    using createStreams_Nil[of env m] quiet_streams[of env] by blast
qed

theorem empty_sink_list_legal_witness:
  "prettyPrint (mergedConfig example_env quiet_config) \<noteq> Some True
   \<and> (destination (mergedConfig example_env quiet_config) = None
        \<or> destination (mergedConfig example_env quiet_config) = Some [])
   \<and> list_all (\<lambda>entry. \<not> enabled (snd entry))
        (override [] (levelFiles (mergedConfig example_env quiet_config)))
   \<and> createStreams example_env (mergedConfig example_env quiet_config) = []
   \<and> fst (initLogger example_env (Some quiet_config) init_state) = 0
   \<and> route (heap (snd (initLogger example_env (Some quiet_config) init_state)) ! 0) Fatal = []"
  using empty_sink_list_legal[where env = example_env
      and m = "mergedConfig example_env quiet_config"
      and config = quiet_config and s = init_state]
  by (auto simp: init_state_def list_all_iff split: prod.splits)

subsection \<open>No validation of the configuration\<close>

text \<open>
  Claim C1, as the spec states it, fails: \<open>unchecked_config\<close> has
  \<^verbatim>\<open>rotation.maxFiles = 0\<close> and an empty redaction path list, and \<^verbatim>\<open>initLogger\<close>
  returns a logger for it: four sinks are constructed, the three rotating ones with
  \<open>maxFiles = 0\<close>, and the logger options hold the empty path list.
\<close>

theorem invalid_configuration_counterexample:
  "violates_constraints unchecked_config
   \<and> initLogger example_env (Some unchecked_config) init_state =
       (0, \<lparr> heap =
               [\<lparr> options =
                    \<lparr> opt_level = Some Info, base = [], opt_serializers = None,
                      redact = Some \<lparr> redact_paths = [], redact_censor = ''[REDACTED]'' \<rparr> \<rparr>,
                  streams =
                    [\<lparr> stream_level = Info, stream = PinoPretty, stream_filter = None \<rparr>,
                     \<lparr> stream_level = Info,
                       stream = PinoRoll
                         \<lparr> roll_file = ''/srv/logs/app.log'', roll_frequency = ''1d'',
                           roll_size = ''10M'', roll_maxFiles = 0, roll_mkdir = True,
                           roll_dirname = Some ''/srv/logs'' \<rparr>,
                       stream_filter = None \<rparr>,
                     \<lparr> stream_level = Fatal,
                       stream = PinoRoll
                         \<lparr> roll_file = ''/srv/logs/fatal.log'', roll_frequency = ''1d'',
                           roll_size = ''10M'', roll_maxFiles = 0, roll_mkdir = True,
                           roll_dirname = None \<rparr>,
                       stream_filter = Some Fatal \<rparr>,
                     \<lparr> stream_level = Error,
                       stream = PinoRoll
                         \<lparr> roll_file = ''/srv/logs/error.log'', roll_frequency = ''1d'',
                           roll_size = ''10M'', roll_maxFiles = 0, roll_mkdir = True,
                           roll_dirname = None \<rparr>,
                       stream_filter = Some Error \<rparr>],
                  current_level = Info, bindings = [] \<rparr>],
             loggerInstance = None, calls = [] \<rparr>)"
  by (simp add: violates_constraints_def unchecked_config_def empty_config_def
        initLogger_def new_logger_def init_state_def mergedConfig_def Let_def
        defaultConfig_def example_env_def override_simps spread_def spread_rotation_def
        as_partial_def loggerOptions_def pino_def createStreams_def createPrettyStream_def
        createRotationStream_def levelFileStreams_def createLevelStream_def
        posix_dirname_def)

text \<open>
  Claim C1, amended. \<^verbatim>\<open>initLogger\<close> tests no value of the configuration, and the
  module has no \<open>InvalidConfiguration\<close> error. For every configuration of the model
  (each key that is present holds a value of its type) it builds, from the merged
  configuration, the logger options and the sink list written out below and creates
  one new logger from them: a \<open>rotation.maxFiles\<close> that the caller gave is the
  \<open>maxFiles\<close> of every rotating file sink, whatever its sign, and a redaction path list
  that the caller gave is the path list of the options, empty or not. What the pino
  library does with the options and the sinks it is handed is not part of the
  statement.
\<close>

theorem initLogger_validates_nothing:
  "initLogger env (Some config) s =
     (let lvl = override Info (level config);
          dest = override (join env [cwd env, ''logs'', ''app.log'']) (destination config);
          R = spread_rotation \<lparr> interval = ''1d'', rsize = ''10M'', maxFiles = 5 \<rparr>
                (rotation config)
      in (length (heap s),
          s\<lparr> heap := heap s @
            [\<lparr> options =
                 \<lparr> opt_level = Some lvl,
                   base = override [] (baseContext config),
                   opt_serializers = serializers config,
                   redact =
                     (case redaction config of
                        None \<Rightarrow> None
                      | Some rd \<Rightarrow>
                          Some \<lparr> redact_paths = paths rd,
                                 redact_censor = override ''[REDACTED]'' (censor rd) \<rparr>) \<rparr>,
               streams =
                 (if override (NODE_ENV env \<noteq> Some ''production'') (prettyPrint config)
                  then [\<lparr> stream_level = lvl, stream = PinoPretty, stream_filter = None \<rparr>]
                  else [])
                 @ (if dest \<noteq> []
                    then [\<lparr> stream_level = lvl,
                             stream = PinoRoll
                               \<lparr> roll_file = dest, roll_frequency = interval R,
                                 roll_size = rsize R, roll_maxFiles = maxFiles R,
                                 roll_mkdir = True,
                                 roll_dirname = Some (dirname env dest) \<rparr>,
                             stream_filter = None \<rparr>]
                    else [])
                 @ concat (map (\<lambda>l. case levelFile env config l of
                                      None \<Rightarrow> []
                                    | Some c \<Rightarrow>
                                        if enabled c
                                        then [\<lparr> stream_level = l,
                                                 stream = PinoRoll
                                                   \<lparr> roll_file =
                                                       override
                                                         (join env [dirname env dest,
                                                            levelName l @ ''.log''])
                                                         (level_destination c),
                                                     roll_frequency = interval R,
                                                     roll_size = rsize R,
                                                     roll_maxFiles = maxFiles R,
                                                     roll_mkdir = True,
                                                     roll_dirname = None \<rparr>,
                                                 stream_filter = Some l \<rparr>]
                                        else [])
                             [Fatal, Error, Warn, Info, Debug, Trace]),
               current_level = lvl,
               bindings = [] \<rparr>] \<rparr>))
   \<and> (rotation config = Some r \<and> p_maxFiles r = Some n \<longrightarrow>
        maxFiles (spread_rotation \<lparr> interval = ''1d'', rsize = ''10M'', maxFiles = 5 \<rparr>
                    (rotation config)) = n)
   \<and> (case initLogger env (Some config) s of
         (a, s') \<Rightarrow>
           (rotation config = Some r \<and> p_maxFiles r = Some n \<longrightarrow>
              (\<forall>d \<in> set (streams (heap s' ! a)).
                 \<forall>opts. stream d = PinoRoll opts \<longrightarrow> roll_maxFiles opts = n))
           \<and> (\<forall>rd. redaction config = Some rd \<longrightarrow>
                 redact (options (heap s' ! a)) =
                   Some \<lparr> redact_paths = paths rd,
                          redact_censor = override ''[REDACTED]'' (censor rd) \<rparr>))"
proof -
  let ?m = "mergedConfig env config"
  let ?R = "spread_rotation (default_rotation (defaultConfig env)) (rotation config)"
  have m: "rotation ?m = Some (as_partial ?R)" by (simp only: merged_fields)
  have opts: "loggerOptions ?m =
      \<lparr> opt_level = Some (override Info (level config)),
        base = override [] (baseContext config),
        opt_serializers = serializers config,
        redact =
          (case redaction config of
             None \<Rightarrow> None
           | Some rd \<Rightarrow>
               Some \<lparr> redact_paths = paths rd,
                      redact_censor = override ''[REDACTED]'' (censor rd) \<rparr>) \<rparr>"
    by (simp add: loggerOptions_def mergedConfig_def Let_def default_fields)
  have A: "initLogger env (Some config) s =
      (length (heap s),
       s\<lparr> heap := heap s @ [pino (loggerOptions ?m) (createStreams env ?m)] \<rparr>)"
    by (simp add: initLogger_eq override_simps)
  have 1: "maxFiles (spread_rotation \<lparr> interval = ''1d'', rsize = ''10M'', maxFiles = 5 \<rparr>
                    (rotation config)) = n"
    if "rotation config = Some r" "p_maxFiles r = Some n"
    using that by (simp add: spread_rotation_def override_simps)
  have 2: "roll_maxFiles opts = n"
    if "rotation config = Some r" "p_maxFiles r = Some n"
      "d \<in> set (createStreams env ?m)" "stream d = PinoRoll opts" for d opts
  proof -
    have "maxFiles ?R = n" using 1[OF that(1,2)] by (simp only: default_fields)
    with createStreams_rotation[OF m that(3)] that(4) show ?thesis by simp
  qed
  have 3: "redact (loggerOptions ?m) =
             Some \<lparr> redact_paths = paths rd,
                    redact_censor = override ''[REDACTED]'' (censor rd) \<rparr>"
    if "redaction config = Some rd" for rd
    using that by (simp add: opts)
  have B: "pino (loggerOptions ?m) (createStreams env ?m) =
      (let lvl = override Info (level config);
          dest = override (join env [cwd env, ''logs'', ''app.log'']) (destination config);
          R = spread_rotation \<lparr> interval = ''1d'', rsize = ''10M'', maxFiles = 5 \<rparr>
                (rotation config)
      in \<lparr> options =
                 \<lparr> opt_level = Some lvl,
                   base = override [] (baseContext config),
                   opt_serializers = serializers config,
                   redact =
                     (case redaction config of
                        None \<Rightarrow> None
                      | Some rd \<Rightarrow>
                          Some \<lparr> redact_paths = paths rd,
                                 redact_censor = override ''[REDACTED]'' (censor rd) \<rparr>) \<rparr>,
               streams =
                 (if override (NODE_ENV env \<noteq> Some ''production'') (prettyPrint config)
                  then [\<lparr> stream_level = lvl, stream = PinoPretty, stream_filter = None \<rparr>]
                  else [])
                 @ (if dest \<noteq> []
                    then [\<lparr> stream_level = lvl,
                             stream = PinoRoll
                               \<lparr> roll_file = dest, roll_frequency = interval R,
                                 roll_size = rsize R, roll_maxFiles = maxFiles R,
                                 roll_mkdir = True,
                                 roll_dirname = Some (dirname env dest) \<rparr>,
                             stream_filter = None \<rparr>]
                    else [])
                 @ concat (map (\<lambda>l. case levelFile env config l of
                                      None \<Rightarrow> []
                                    | Some c \<Rightarrow>
                                        if enabled c
                                        then [\<lparr> stream_level = l,
                                                 stream = PinoRoll
                                                   \<lparr> roll_file =
                                                       override
                                                         (join env [dirname env dest,
                                                            levelName l @ ''.log''])
                                                         (level_destination c),
                                                     roll_frequency = interval R,
                                                     roll_size = rsize R,
                                                     roll_maxFiles = maxFiles R,
                                                     roll_mkdir = True,
                                                     roll_dirname = None \<rparr>,
                                                 stream_filter = Some l \<rparr>]
                                        else [])
                             [Fatal, Error, Warn, Info, Debug, Trace]),
               current_level = lvl,
               bindings = [] \<rparr>)"
    unfolding pino_def opts
    by (subst createStreams_explicit) (simp add: Let_def override_simps)
  have C: "initLogger env (Some config) s =
     (let lvl = override Info (level config);
          dest = override (join env [cwd env, ''logs'', ''app.log'']) (destination config);
          R = spread_rotation \<lparr> interval = ''1d'', rsize = ''10M'', maxFiles = 5 \<rparr>
                (rotation config)
      in (length (heap s),
          s\<lparr> heap := heap s @
            [\<lparr> options =
                 \<lparr> opt_level = Some lvl,
                   base = override [] (baseContext config),
                   opt_serializers = serializers config,
                   redact =
                     (case redaction config of
                        None \<Rightarrow> None
                      | Some rd \<Rightarrow>
                          Some \<lparr> redact_paths = paths rd,
                                 redact_censor = override ''[REDACTED]'' (censor rd) \<rparr>) \<rparr>,
               streams =
                 (if override (NODE_ENV env \<noteq> Some ''production'') (prettyPrint config)
                  then [\<lparr> stream_level = lvl, stream = PinoPretty, stream_filter = None \<rparr>]
                  else [])
                 @ (if dest \<noteq> []
                    then [\<lparr> stream_level = lvl,
                             stream = PinoRoll
                               \<lparr> roll_file = dest, roll_frequency = interval R,
                                 roll_size = rsize R, roll_maxFiles = maxFiles R,
                                 roll_mkdir = True,
                                 roll_dirname = Some (dirname env dest) \<rparr>,
                             stream_filter = None \<rparr>]
                    else [])
                 @ concat (map (\<lambda>l. case levelFile env config l of
                                      None \<Rightarrow> []
                                    | Some c \<Rightarrow>
                                        if enabled c
                                        then [\<lparr> stream_level = l,
                                                 stream = PinoRoll
                                                   \<lparr> roll_file =
                                                       override
                                                         (join env [dirname env dest,
                                                            levelName l @ ''.log''])
                                                         (level_destination c),
                                                     roll_frequency = interval R,
                                                     roll_size = rsize R,
                                                     roll_maxFiles = maxFiles R,
                                                     roll_mkdir = True,
                                                     roll_dirname = None \<rparr>,
                                                 stream_filter = Some l \<rparr>]
                                        else [])
                             [Fatal, Error, Warn, Info, Debug, Trace]),
               current_level = lvl,
               bindings = [] \<rparr>] \<rparr>))"
    unfolding A B by (simp only: Let_def)
  have D: "case initLogger env (Some config) s of
         (a, s') \<Rightarrow>
           (rotation config = Some r \<and> p_maxFiles r = Some n \<longrightarrow>
              (\<forall>d \<in> set (streams (heap s' ! a)).
                 \<forall>opts. stream d = PinoRoll opts \<longrightarrow> roll_maxFiles opts = n))
           \<and> (\<forall>rd. redaction config = Some rd \<longrightarrow>
                 redact (options (heap s' ! a)) =
                   Some \<lparr> redact_paths = paths rd,
                          redact_censor = override ''[REDACTED]'' (censor rd) \<rparr>)"
    using 2 3 by (auto simp: A pino_def)
  show ?thesis
    using C 1 D by blast
qed

theorem initLogger_validates_nothing_witness:
  "rotation unchecked_config = Some \<lparr> p_interval = None, p_rsize = None, p_maxFiles = Some 0 \<rparr>
   \<and> p_maxFiles \<lparr> p_interval = None, p_rsize = None, p_maxFiles = Some 0 \<rparr> = Some 0
   \<and> redaction unchecked_config = Some \<lparr> paths = [], censor = None \<rparr>
   \<and> fst (initLogger example_env (Some unchecked_config) init_state) = 0
   \<and> map (\<lambda>d. case stream d of
                  PinoPretty \<Rightarrow> None
                | PinoRoll opts \<Rightarrow> Some (roll_file opts, roll_maxFiles opts))
        (streams (heap (snd (initLogger example_env (Some unchecked_config) init_state)) ! 0))
       = [None, Some (''/srv/logs/app.log'', 0), Some (''/srv/logs/fatal.log'', 0),
          Some (''/srv/logs/error.log'', 0)]
   \<and> redact (options (heap (snd (initLogger example_env (Some unchecked_config) init_state)) ! 0))
       = Some \<lparr> redact_paths = [], redact_censor = ''[REDACTED]'' \<rparr>"
proof -
  have r: "rotation unchecked_config = Some \<lparr> p_interval = None, p_rsize = None, p_maxFiles = Some 0 \<rparr>"
    and rd: "redaction unchecked_config = Some \<lparr> paths = [], censor = None \<rparr>"
    and c0: "prettyPrint unchecked_config = None" "destination unchecked_config = None"
      "level unchecked_config = None" "levelFiles unchecked_config = None"
    by (simp_all add: unchecked_config_def empty_config_def)
  have en: "enabled file_on" "\<not> enabled file_off" "level_destination file_on = None"
    by (simp_all add: file_on_def file_off_def)
  have lf: "levelFile example_env unchecked_config l
      = Some (if l = Fatal \<or> l = Error then file_on else file_off)" for l
    by (cases l) (simp_all add: levelFile_eq c0 override_simps file_on_def file_off_def)
  have e: "NODE_ENV example_env = None" "cwd example_env = ''/srv''"
      "join example_env = posix_join" "dirname example_env = posix_dirname"
    by (simp_all add: example_env_def)
  note T = initLogger_validates_nothing[where env = example_env and config = unchecked_config
      and s = init_state and r = "\<lparr> p_interval = None, p_rsize = None, p_maxFiles = Some 0 \<rparr>"
      and n = 0]
  have R: "spread_rotation \<lparr> interval = ''1d'', rsize = ''10M'', maxFiles = 5 \<rparr>
             (rotation unchecked_config) = \<lparr> interval = ''1d'', rsize = ''10M'', maxFiles = 0 \<rparr>"
    by (simp add: r spread_rotation_def override_simps)
  have h: "heap init_state = []" by (simp add: init_state_def)
  show ?thesis
    using r rd
    by (simp add: conjunct1[OF T] Let_def R c0 e en lf override_simps posix_dirname_def h
          spread_rotation_def)
qed

subsection \<open>The singleton\<close>

lemma getLogger_None:
  "loggerInstance s = None \<Longrightarrow>
   getLogger env config s =
     (length (heap s),
      s\<lparr> heap := heap s @
           [pino (loggerOptions (mergedConfig env (override empty_config config)))
                 (createStreams env (mergedConfig env (override empty_config config)))],
         loggerInstance := Some (length (heap s)) \<rparr>)"
  by (simp add: getLogger_def initLogger_eq)

lemma getLogger_Some: "loggerInstance s = Some a \<Longrightarrow> getLogger env config s = (a, s)"
  by (simp add: getLogger_def)

lemma getLogger_instance:
  "getLogger env config s = (a, s') \<Longrightarrow> loggerInstance s' = Some a"
  by (cases "loggerInstance s") (auto simp: getLogger_None getLogger_Some)

lemma getLogger_allocated:
  "wf_state s \<Longrightarrow> getLogger env config s = (a, s') \<Longrightarrow> a < length (heap s')"
  by (cases "loggerInstance s") (auto simp: getLogger_None getLogger_Some wf_state_def)

lemma getLogger_wf:
  "wf_state s \<Longrightarrow> getLogger env config s = (a, s') \<Longrightarrow> wf_state s'"
  using getLogger_instance[of env config s a s'] getLogger_allocated[of s env config a s']
  by (simp add: wf_state_def)

text \<open>
  Claim C5. Two calls of \<^verbatim>\<open>getLogger\<close> with no \<^verbatim>\<open>resetLogger\<close> between them return
  the same reference, and the second call changes nothing: its configuration is not
  read, and the logger, built from the first configuration when there was no singleton
  before, stays as it is. After \<^verbatim>\<open>resetLogger\<close> the next \<^verbatim>\<open>getLogger\<close> returns
  another reference, to a logger newly built from the configuration of that call.
\<close>

theorem getLogger_singleton:
  assumes "wf_state s"
  shows "case getLogger env c1 s of
           (a1, s1) \<Rightarrow>
             (case getLogger env c2 s1 of
                (a2, s2) \<Rightarrow>
                  a2 = a1 \<and> s2 = s1
                  \<and> (case getLogger env c3 (resetLogger s2) of
                        (a3, s3) \<Rightarrow>
                          a3 \<noteq> a1
                          \<and> heap s3 = heap s2 @
                              [pino (loggerOptions (mergedConfig env (override empty_config c3)))
                                    (createStreams env
                                       (mergedConfig env (override empty_config c3)))]
                          \<and> a3 = length (heap s2)
                          \<and> loggerInstance s3 = Some a3)
                  \<and> (loggerInstance s = None \<longrightarrow>
                        heap s2 ! a2 =
                          pino (loggerOptions (mergedConfig env (override empty_config c1)))
                               (createStreams env
                                  (mergedConfig env (override empty_config c1)))))"
proof -
  obtain a1 s1 where g1: "getLogger env c1 s = (a1, s1)" by (cases "getLogger env c1 s")
  have i1: "loggerInstance s1 = Some a1" by (rule getLogger_instance[OF g1])
  have lt: "a1 < length (heap s1)" by (rule getLogger_allocated[OF assms g1])
  have g2: "getLogger env c2 s1 = (a1, s1)" by (rule getLogger_Some[OF i1])
  have r: "loggerInstance (resetLogger s1) = None" "heap (resetLogger s1) = heap s1"
    by (simp_all add: resetLogger_def)
  have first: "heap s1 ! a1 =
      pino (loggerOptions (mergedConfig env (override empty_config c1)))
           (createStreams env (mergedConfig env (override empty_config c1)))"
    if "loggerInstance s = None"
    using g1 by (auto simp: getLogger_None[OF that])
  show ?thesis
    using lt first by (simp add: g1 g2 getLogger_None[OF r(1)] r(2))
qed

theorem getLogger_singleton_witness:
  "wf_state init_state
   \<and> fst (getLogger example_env (Some quiet_config) init_state) = 0
   \<and> fst (getLogger example_env (Some unchecked_config)
             (snd (getLogger example_env (Some quiet_config) init_state))) = 0
   \<and> fst (getLogger example_env None
             (resetLogger (snd (getLogger example_env (Some quiet_config) init_state)))) = 1"
proof -
  have w: "wf_state init_state" by (simp add: wf_state_def init_state_def)
  show ?thesis
    using w getLogger_singleton[OF w, where env = example_env and ?c1.0 = "Some quiet_config"
        and ?c2.0 = "Some unchecked_config" and ?c3.0 = None]
    by (simp add: init_state_def getLogger_None getLogger_Some resetLogger_def)
qed

subsection \<open>The ambient operations\<close>

lemma getLogger_default:
  "loggerInstance s = None \<Longrightarrow>
   getLogger env None s =
     (length (heap s),
      s\<lparr> heap := heap s @ [default_logger env], loggerInstance := Some (length (heap s)) \<rparr>)"
  by (simp add: getLogger_None default_logger_def override_simps)

lemma createLogger_eq:
  "createLogger env cfg s =
     (length (heap s),
      s\<lparr> heap := heap s @
           [pino (loggerOptions (mergedConfig env cfg)) (createStreams env (mergedConfig env cfg))] \<rparr>)"
  by (simp add: createLogger_def initLogger_eq override_simps)

text \<open>What the ambient operations do, by whether a singleton exists.\<close>

lemma setLevel_None:
  "loggerInstance s = None \<Longrightarrow>
   setLevel env lvl s =
     s\<lparr> heap := heap s @ [(default_logger env)\<lparr> current_level := lvl \<rparr>],
        loggerInstance := Some (length (heap s)) \<rparr>"
  by (simp add: setLevel_def getLogger_default)

lemma setLevel_Some:
  "loggerInstance s = Some a \<Longrightarrow>
   setLevel env lvl s = s\<lparr> heap := (heap s)[a := (heap s ! a)\<lparr> current_level := lvl \<rparr>] \<rparr>"
  by (simp add: setLevel_def getLogger_Some)

lemma child_None:
  "loggerInstance s = None \<Longrightarrow>
   child env bnd s =
     (Suc (length (heap s)),
      s\<lparr> heap := heap s @ [default_logger env, pino_child (default_logger env) bnd],
         loggerInstance := Some (length (heap s)) \<rparr>)"
  by (simp add: child_def getLogger_default new_logger_def)

lemma child_Some:
  "loggerInstance s = Some a \<Longrightarrow>
   child env bnd s =
     (length (heap s), s\<lparr> heap := heap s @ [pino_child (heap s ! a) bnd] \<rparr>)"
  by (simp add: child_def getLogger_Some new_logger_def)

lemma log_eq_createLogFunction: "log env lvl = createLogFunction env lvl"
  by (simp add: fun_eq_iff log_def createLogFunction_def)

lemma createLogFunction_None:
  "loggerInstance s = None \<Longrightarrow>
   createLogFunction env lvl message context s =
     s\<lparr> heap := heap s @ [default_logger env],
        loggerInstance := Some (length (heap s)),
        calls := calls s @
          [\<lparr> call_logger = length (heap s), call_level = lvl,
             call_obj = (case message of Text m \<Rightarrow> override [] context
                         | Fields f \<Rightarrow> spread f (override [] context)),
             call_msg = (case message of Text m \<Rightarrow> Some m | Fields f \<Rightarrow> None) \<rparr>] \<rparr>"
  by (cases message)
     (simp_all add: createLogFunction_def getLogger_default invoke_def)

lemma createLogFunction_Some:
  "loggerInstance s = Some a \<Longrightarrow>
   createLogFunction env lvl message context s =
     s\<lparr> calls := calls s @
          [\<lparr> call_logger = a, call_level = lvl,
             call_obj = (case message of Text m \<Rightarrow> override [] context
                         | Fields f \<Rightarrow> spread f (override [] context)),
             call_msg = (case message of Text m \<Rightarrow> Some m | Fields f \<Rightarrow> None) \<rparr>] \<rparr>"
  by (cases message)
     (simp_all add: createLogFunction_def getLogger_Some invoke_def)

lemma setLevel_on_singleton:
  assumes "wf_state s1" and "b < length (heap s1)" and "loggerInstance s1 \<noteq> Some b"
  shows "on_singleton env (\<lambda>lg. lg\<lparr> current_level := lvl \<rparr>) b s1 (setLevel env lvl s1)"
proof (cases "loggerInstance s1")
  case None
  then show ?thesis
    using assms(2) by (simp add: on_singleton_def setLevel_None nth_append)
next
  case (Some a0)
  with assms(1,3) have "a0 \<noteq> b" and "a0 < length (heap s1)"
    by (simp_all add: wf_state_def)
  then show ?thesis
    using Some by (simp add: on_singleton_def setLevel_Some)
qed

lemma child_on_singleton:
  assumes "wf_state s1" and "b < length (heap s1)" and "loggerInstance s1 \<noteq> Some b"
  shows "case child env bnd s1 of
           (c, s2) \<Rightarrow>
             on_singleton env (\<lambda>lg. lg) b s1 s2 \<and> c \<noteq> b
             \<and> (\<forall>a. loggerInstance s2 = Some a \<longrightarrow> heap s2 ! c = pino_child (heap s2 ! a) bnd)"
proof (cases "loggerInstance s1")
  case None
  then show ?thesis
    using assms(2) by (simp add: on_singleton_def child_None nth_append)
next
  case (Some a0)
  with assms(1,3) have "a0 \<noteq> b" and "a0 < length (heap s1)"
    by (simp_all add: wf_state_def)
  then show ?thesis
    using Some assms(2) by (simp add: on_singleton_def child_Some nth_append)
qed

lemma createLogFunction_on_singleton:
  assumes "wf_state s1" and "b < length (heap s1)" and "loggerInstance s1 \<noteq> Some b"
  shows "on_singleton env (\<lambda>lg. lg) b s1 (createLogFunction env lvl message context s1)
       \<and> called_on_singleton lvl s1 (createLogFunction env lvl message context s1)"
proof (cases "loggerInstance s1")
  case None
  then show ?thesis
    using assms(2)
    by (simp add: on_singleton_def called_on_singleton_def createLogFunction_None nth_append)
next
  case (Some a0)
  with assms(1,3) have "a0 \<noteq> b" and "a0 < length (heap s1)"
    by (simp_all add: wf_state_def)
  then show ?thesis
    using Some
    by (simp add: on_singleton_def called_on_singleton_def createLogFunction_Some)
qed

lemma createLogger_fresh:
  assumes "wf_state s" and "createLogger env cfg s = (b, s1)"
  shows "b = length (heap s)" and "loggerInstance s1 = loggerInstance s"
    and "wf_state s1" and "b < length (heap s1)" and "loggerInstance s1 \<noteq> Some b"
  using assms by (auto simp: createLogger_eq wf_state_def split: option.splits)

text \<open>
  Claim C10. Let \<^verbatim>\<open>createLogger\<close> have returned the logger \<open>b\<close>. It did not touch the
  module variable. Each of \<^verbatim>\<open>setLevel\<close>, \<^verbatim>\<open>child\<close>, \<^verbatim>\<open>log\<close> and the six level-named
  functions, called next, works on the logger the module variable refers to and leaves
  \<open>b\<close> as it was: \<^verbatim>\<open>setLevel\<close> assigns the level of the singleton, \<^verbatim>\<open>child\<close> derives the
  child from the singleton, the log functions call the method of their level on the
  singleton. When the module variable was empty, the singleton is first built from the
  default configuration alone (\<open>default_logger\<close> does not depend on the configuration
  given to \<^verbatim>\<open>createLogger\<close>) and stored in the module variable.
\<close>

theorem ambient_operations_on_singleton:
  assumes "wf_state s" and "createLogger env cfg s = (b, s1)"
  shows "loggerInstance s1 = loggerInstance s
       \<and> on_singleton env (\<lambda>lg. lg\<lparr> current_level := lvl \<rparr>) b s1 (setLevel env lvl s1)
       \<and> (case child env bnd s1 of
             (c, s2) \<Rightarrow>
               on_singleton env (\<lambda>lg. lg) b s1 s2 \<and> c \<noteq> b
               \<and> (\<forall>a. loggerInstance s2 = Some a \<longrightarrow>
                      heap s2 ! c = pino_child (heap s2 ! a) bnd))
       \<and> on_singleton env (\<lambda>lg. lg) b s1 (log env lvl msg ctx s1)
       \<and> called_on_singleton lvl s1 (log env lvl msg ctx s1)
       \<and> on_singleton env (\<lambda>lg. lg) b s1 (fatal env msg ctx s1)
       \<and> called_on_singleton Fatal s1 (fatal env msg ctx s1)
       \<and> on_singleton env (\<lambda>lg. lg) b s1 (error env msg ctx s1)
       \<and> called_on_singleton Error s1 (error env msg ctx s1)
       \<and> on_singleton env (\<lambda>lg. lg) b s1 (warn env msg ctx s1)
       \<and> called_on_singleton Warn s1 (warn env msg ctx s1)
       \<and> on_singleton env (\<lambda>lg. lg) b s1 (info env msg ctx s1)
       \<and> called_on_singleton Info s1 (info env msg ctx s1)
       \<and> on_singleton env (\<lambda>lg. lg) b s1 (debug env msg ctx s1)
       \<and> called_on_singleton Debug s1 (debug env msg ctx s1)
       \<and> on_singleton env (\<lambda>lg. lg) b s1 (trace env msg ctx s1)
       \<and> called_on_singleton Trace s1 (trace env msg ctx s1)"
proof -
  note f = createLogger_fresh[OF assms]
  note pre = f(3,4,5)
  have L: "on_singleton env (\<lambda>lg. lg) b s1 (createLogFunction env l msg ctx s1)
         \<and> called_on_singleton l s1 (createLogFunction env l msg ctx s1)" for l
    by (rule createLogFunction_on_singleton[OF pre])
  show ?thesis
    using f(2) setLevel_on_singleton[OF pre, of env lvl] child_on_singleton[OF pre, of env bnd]
      L[of lvl] L[of Fatal] L[of Error] L[of Warn] L[of Info] L[of Debug] L[of Trace]
    by (simp only: log_eq_createLogFunction fatal_def error_def warn_def info_def
          debug_def trace_def simp_thms)
qed

theorem ambient_operations_on_singleton_witness:
  "wf_state init_state
   \<and> createLogger example_env unchecked_config init_state
       = (0, snd (createLogger example_env unchecked_config init_state))
   \<and> loggerInstance (setLevel example_env Debug
        (snd (createLogger example_env unchecked_config init_state))) = Some 1
   \<and> heap (setLevel example_env Debug
        (snd (createLogger example_env unchecked_config init_state))) ! 1
       = (default_logger example_env)\<lparr> current_level := Debug \<rparr>
   \<and> called_on_singleton Warn (snd (createLogger example_env unchecked_config init_state))
        (warn example_env (Text ''low'') None
           (snd (createLogger example_env unchecked_config init_state)))"
proof -
  have w: "wf_state init_state" by (simp add: wf_state_def init_state_def)
  have c: "createLogger example_env unchecked_config init_state
       = (0, snd (createLogger example_env unchecked_config init_state))"
    by (simp add: createLogger_eq init_state_def)
  have n: "loggerInstance (snd (createLogger example_env unchecked_config init_state)) = None"
      "length (heap (snd (createLogger example_env unchecked_config init_state))) = 1"
    by (simp_all add: createLogger_eq init_state_def)
  show ?thesis
    using w c ambient_operations_on_singleton[OF w c, where lvl = Debug and msg = "Text ''low''"
        and ctx = None and bnd = "[]"]
    by (auto simp: on_singleton_def n split: option.splits)
qed

subsection \<open>The event of a log call\<close>

lemma spread_Nil: "spread a [] = a"
  by (simp add: spread_def)

lemma spread_context_wins:
  "distinct (map fst c) \<Longrightarrow> (k, v) \<in> set c \<Longrightarrow> map_of (spread f c) k = Some v"
  by (simp add: map_of_spread map_of_rev_distinct map_add_def)

lemma spread_message_kept:
  "k \<notin> fst ` set c \<Longrightarrow> map_of (spread f c) k = map_of f k"
proof -
  assume "k \<notin> fst ` set c"
  then have "map_of (rev c) k = None" by (simp add: map_of_eq_None_iff)
  then show ?thesis by (simp add: map_of_spread map_add_def)
qed

lemma createLogFunction_calls:
  "calls (createLogFunction env lvl message context s) =
     calls s @
       [\<lparr> call_logger = fst (getLogger env None s), call_level = lvl,
          call_obj = (case message of Text m \<Rightarrow> override [] context
                      | Fields f \<Rightarrow> spread f (override [] context)),
          call_msg = (case message of Text m \<Rightarrow> Some m | Fields f \<Rightarrow> None) \<rparr>]"
  by (cases "loggerInstance s")
     (simp_all add: createLogFunction_None createLogFunction_Some getLogger_default
        getLogger_Some)

text \<open>
  Claim C8. A call of \<^verbatim>\<open>log\<close> makes exactly one call of the method of the given
  level on the logger. For a record-shaped message the object passed is
  \<^verbatim>\<open>{ ...message, ...context }\<close> with no message string: at a key of the context it
  holds the value of the context, at any other key the value of the message, and it is
  the message itself when no context is given. For a string message the object passed
  is the context (\<^verbatim>\<open>{}\<close> when none is given) and the string is passed as the message.
  The function made by \<^verbatim>\<open>createLogFunction\<close>, and so each of the six level-named
  functions, does the same as \<^verbatim>\<open>log\<close> at its level.
\<close>

theorem log_event_merge:
  "calls (log env lvl message ctx s)
     = calls s @ [last (calls (log env lvl message ctx s))]
   \<and> call_level (last (calls (log env lvl message ctx s))) = lvl
   \<and> call_obj (last (calls (log env lvl (Fields f) ctx s))) = spread f (override [] ctx)
   \<and> call_msg (last (calls (log env lvl (Fields f) ctx s))) = None
   \<and> call_obj (last (calls (log env lvl (Text m) ctx s))) = override [] ctx
   \<and> call_msg (last (calls (log env lvl (Text m) ctx s))) = Some m
   \<and> (distinct (map fst c) \<and> (k, v) \<in> set c \<longrightarrow>
        map_of (call_obj (last (calls (log env lvl (Fields f) (Some c) s)))) k = Some v)
   \<and> (k \<notin> fst ` set c \<longrightarrow>
        map_of (call_obj (last (calls (log env lvl (Fields f) (Some c) s)))) k = map_of f k)
   \<and> call_obj (last (calls (log env lvl (Fields f) None s))) = f
   \<and> createLogFunction env lvl message ctx s = log env lvl message ctx s
   \<and> fatal env message ctx s = log env Fatal message ctx s
   \<and> error env message ctx s = log env Error message ctx s
   \<and> warn env message ctx s = log env Warn message ctx s
   \<and> info env message ctx s = log env Info message ctx s
   \<and> debug env message ctx s = log env Debug message ctx s
   \<and> trace env message ctx s = log env Trace message ctx s"
  using spread_context_wins[of c k v f] spread_message_kept[of k c f]
  by (simp add: log_eq_createLogFunction createLogFunction_calls override_simps spread_Nil
        fatal_def error_def warn_def info_def debug_def trace_def)

theorem log_event_merge_witness:
  "distinct (map fst [(''a'', JNum 1)]) \<and> (''a'', JNum 1) \<in> set [(''a'', JNum 1)]
   \<and> ''b'' \<notin> fst ` set [(''a'', JNum 1)]
   \<and> call_obj (last (calls (log example_env Info
         (Fields [(''a'', JNum 2), (''b'', JNum 3)]) (Some [(''a'', JNum 1)]) init_state)))
       = [(''a'', JNum 1), (''b'', JNum 3)]
   \<and> map_of (call_obj (last (calls (log example_env Info
         (Fields [(''a'', JNum 2), (''b'', JNum 3)]) (Some [(''a'', JNum 1)]) init_state)))) ''a''
       = Some (JNum 1)"
  using log_event_merge[where env = example_env and lvl = Info and s = init_state
      and f = "[(''a'', JNum 2), (''b'', JNum 3)]" and c = "[(''a'', JNum 1)]"
      and k = "''a''" and v = "JNum 1" and ctx = "Some [(''a'', JNum 1)]"
      and message = "Fields [(''a'', JNum 2), (''b'', JNum 3)]" and m = "''x''"]
  by (simp add: override_simps spread_def)

subsection \<open>Routing\<close>

lemma route_mem:
  "d \<in> set (route lg e) \<longleftrightarrow>
     d \<in> set (streams lg) \<and> at_least_as_severe e (current_level lg)
     \<and> at_least_as_severe e (stream_level d)"
  by (auto simp: route_def emits_def admits_def)

lemma initLogger_logger:
  "initLogger env config s = (a, s') \<Longrightarrow>
   heap s' ! a =
     pino (loggerOptions (mergedConfig env (override empty_config config)))
          (createStreams env (mergedConfig env (override empty_config config)))"
  by (auto simp: initLogger_eq)

lemma primary_mem:
  assumes "destination (mergedConfig env config) = Some p" and "p \<noteq> []"
  shows "createRotationStream env (mergedConfig env config) (override Info (level config))
         \<in> set (createStreams env (mergedConfig env config))"
  using assms by (subst createStreams_merged) (simp add: merged_fields)









text \<open>
  Claim C2 does not hold of the code. \<^verbatim>\<open>createLevelStream\<close> writes the predicate
  \<^verbatim>\<open>obj.level === pino.levels.values[level]\<close> into the key \<open>filter\<close> of the entry, under
  the comment "Only include logs of exactly this level (not higher levels)", but the
  dispatch goes by the \<open>level\<close> of the entry as a minimum level, and an event below
  the level of the logger reaches no sink. With the per-level file of \<open>l\<close> enabled and a non-empty
  destination, the logger that \<^verbatim>\<open>initLogger\<close> builds has the primary sink, without a
  filter and with the configured level, which is also the level of the logger, and the
  sink of \<open>l\<close>, with the filter key on \<open>l\<close> and the level \<open>l\<close>. An event of level \<open>e\<close>
  reaches the sink of \<open>l\<close> exactly when \<open>e\<close> is at least as severe as \<open>l\<close> and as the
  configured level; it reaches the primary sink exactly when \<open>e\<close> is at least as severe
  as the configured level. So a fatal event reaches the error file, and under the
  level error a warn event does not reach the warn file.
\<close>

theorem level_file_by_minimum_level:
  assumes "levelFile env config l = Some c" and "enabled c"
    and "destination (mergedConfig env config) = Some p" and "p \<noteq> []"
    and "initLogger env (Some config) s = (a, s')"
  shows "let lg = heap s' ! a;
             primary = createRotationStream env (mergedConfig env config)
                         (override Info (level config));
             lsink = createLevelStream env l
                       (override (join env [dirname env p, levelName l @ ''.log''])
                          (level_destination c))
                       (rotation (mergedConfig env config))
         in primary \<in> set (streams lg) \<and> stream_filter primary = None
            \<and> stream_level primary = override Info (level config)
            \<and> current_level lg = override Info (level config)
            \<and> lsink \<in> set (streams lg) \<and> stream_filter lsink = Some l
            \<and> stream_level lsink = l
            \<and> (lsink \<in> set (route lg e)
                  \<longleftrightarrow> at_least_as_severe e l
                      \<and> at_least_as_severe e (override Info (level config)))
            \<and> (primary \<in> set (route lg e)
                  \<longleftrightarrow> at_least_as_severe e (override Info (level config)))"
proof -
  let ?m = "mergedConfig env config"
  let ?lg = "heap s' ! a"
  let ?primary = "createRotationStream env ?m (override Info (level config))"
  let ?lsink = "createLevelStream env l
                  (override (join env [dirname env p, levelName l @ ''.log''])
                     (level_destination c))
                  (rotation ?m)"
  have lg: "?lg = pino (loggerOptions ?m) (createStreams env ?m)"
    using initLogger_logger[OF assms(5)] by (simp add: override_simps)
  have st: "streams ?lg = createStreams env ?m" by (simp add: lg pino_def)
  have cl: "current_level ?lg = override Info (level config)"
    by (simp add: lg pino_def loggerOptions_def merged_fields override_simps)
  have pm: "?primary \<in> set (streams ?lg)"
    unfolding st by (rule primary_mem[OF assms(3,4)])
  have pf: "stream_filter ?primary = None"
    and pl: "stream_level ?primary = override Info (level config)"
    by (simp_all add: createRotationStream_def Let_def)
  have "levelFileStreams env ?m (l, c) = [?lsink]"
    using assms(2,3) by (simp add: levelFileStreams_def Let_def override_simps)
  with levelFile_stream_mem[OF assms(1)] have lm: "?lsink \<in> set (streams ?lg)"
    unfolding st by simp
  have lf: "stream_filter ?lsink = Some l" and ll: "stream_level ?lsink = l"
    by (simp_all add: createLevelStream_def Let_def)
  have r1: "?lsink \<in> set (route ?lg e)
      \<longleftrightarrow> at_least_as_severe e l \<and> at_least_as_severe e (override Info (level config))"
    using lm by (auto simp: route_mem cl ll)
  have r2: "?primary \<in> set (route ?lg e) \<longleftrightarrow> at_least_as_severe e (override Info (level config))"
    using pm by (simp add: route_mem cl pl)
  show ?thesis
    unfolding Let_def using pm pf pl cl lm lf ll r1 r2 by blast
qed

theorem level_file_by_minimum_level_witness:
  "levelFile example_env empty_config Error = Some file_on \<and> enabled file_on
   \<and> destination (mergedConfig example_env empty_config) = Some ''/srv/logs/app.log''
   \<and> ''/srv/logs/app.log'' \<noteq> []
   \<and> fst (initLogger example_env (Some empty_config) init_state) = 0
   \<and> createLevelStream example_env Error ''/srv/logs/error.log''
         (rotation (mergedConfig example_env empty_config))
       \<in> set (streams (heap (snd (initLogger example_env (Some empty_config) init_state)) ! 0))
   \<and> stream_filter (createLevelStream example_env Error ''/srv/logs/error.log''
         (rotation (mergedConfig example_env empty_config))) = Some Error
   \<and> createLevelStream example_env Error ''/srv/logs/error.log''
         (rotation (mergedConfig example_env empty_config))
       \<in> set (route (heap (snd (initLogger example_env (Some empty_config) init_state)) ! 0)
                Fatal)
   \<and> Fatal \<noteq> Error
   \<and> createLevelStream example_env Error ''/srv/logs/error.log''
         (rotation (mergedConfig example_env empty_config))
       \<notin> set (route (heap (snd (initLogger example_env (Some empty_config) init_state)) ! 0)
                Warn)
   \<and> createRotationStream example_env (mergedConfig example_env empty_config) Info
       \<in> set (route (heap (snd (initLogger example_env (Some empty_config) init_state)) ! 0)
                Warn)
   \<and> levelFile example_env
         (empty_config\<lparr> level := Some Error, levelFiles := Some [(Warn, file_on)] \<rparr>) Warn
       = Some file_on
   \<and> createLevelStream example_env Warn ''/srv/logs/warn.log''
         (rotation (mergedConfig example_env
            (empty_config\<lparr> level := Some Error, levelFiles := Some [(Warn, file_on)] \<rparr>)))
       \<in> set (streams (heap (snd (initLogger example_env
            (Some (empty_config\<lparr> level := Some Error, levelFiles := Some [(Warn, file_on)] \<rparr>))
            init_state)) ! 0))
   \<and> createLevelStream example_env Warn ''/srv/logs/warn.log''
         (rotation (mergedConfig example_env
            (empty_config\<lparr> level := Some Error, levelFiles := Some [(Warn, file_on)] \<rparr>)))
       \<notin> set (route (heap (snd (initLogger example_env
            (Some (empty_config\<lparr> level := Some Error, levelFiles := Some [(Warn, file_on)] \<rparr>))
            init_state)) ! 0) Warn)"
proof -
  let ?c2 = "empty_config\<lparr> level := Some Error, levelFiles := Some [(Warn, file_on)] \<rparr>"
  have lf: "levelFile example_env empty_config Error = Some file_on"
    by (simp add: levelFile_eq empty_config_def override_simps file_on_def)
  have lf2: "levelFile example_env ?c2 Warn = Some file_on"
    by (simp add: levelFile_eq override_simps)
  have en: "enabled file_on" "level_destination file_on = None"
    by (simp_all add: file_on_def)
  have de: "destination (mergedConfig example_env empty_config) = Some ''/srv/logs/app.log''"
    and de2: "destination (mergedConfig example_env ?c2) = Some ''/srv/logs/app.log''"
    by (simp_all add: merged_fields empty_config_def override_simps example_env_def)
  have ne: "''/srv/logs/app.log'' \<noteq> []" by simp
  obtain s1 where il: "initLogger example_env (Some empty_config) init_state = (0, s1)"
    by (simp add: initLogger_eq init_state_def)
  obtain s2 where il2: "initLogger example_env (Some ?c2) init_state = (0, s2)"
    by (simp add: initLogger_eq init_state_def)
  have pth: "join example_env [dirname example_env ''/srv/logs/app.log'', ''error.log'']
       = ''/srv/logs/error.log''"
      "join example_env [dirname example_env ''/srv/logs/app.log'', ''warn.log'']
       = ''/srv/logs/warn.log''"
    by (simp_all add: example_env_def posix_dirname_def)
  have lv: "override Info (level empty_config) = Info" "override Info (level ?c2) = Error"
    by (simp_all add: empty_config_def override_simps)
  have sev: "at_least_as_severe Fatal Error" "at_least_as_severe Fatal Info"
      "\<not> at_least_as_severe Warn Error" "at_least_as_severe Warn Info"
      "at_least_as_severe Warn Warn"
    by (simp_all add: at_least_as_severe_def)
  note T1 = level_file_by_minimum_level[OF lf en(1) de ne il, where e = Fatal]
  note T2 = level_file_by_minimum_level[OF lf en(1) de ne il, where e = Warn]
  note T3 = level_file_by_minimum_level[OF lf2 en(1) de2 ne il2, where e = Warn]
  have A: "createLevelStream example_env Error ''/srv/logs/error.log''
         (rotation (mergedConfig example_env empty_config)) \<in> set (streams (heap s1 ! 0))
     \<and> stream_filter (createLevelStream example_env Error ''/srv/logs/error.log''
         (rotation (mergedConfig example_env empty_config))) = Some Error
     \<and> createLevelStream example_env Error ''/srv/logs/error.log''
         (rotation (mergedConfig example_env empty_config)) \<in> set (route (heap s1 ! 0) Fatal)
     \<and> createLevelStream example_env Error ''/srv/logs/error.log''
         (rotation (mergedConfig example_env empty_config)) \<notin> set (route (heap s1 ! 0) Warn)
     \<and> createRotationStream example_env (mergedConfig example_env empty_config) Info
         \<in> set (route (heap s1 ! 0) Warn)"
    using sev T1 T2 by (simp add: Let_def pth lv(1) en(2) override_simps)
  have B: "createLevelStream example_env Warn ''/srv/logs/warn.log''
         (rotation (mergedConfig example_env ?c2)) \<in> set (streams (heap s2 ! 0))
     \<and> createLevelStream example_env Warn ''/srv/logs/warn.log''
         (rotation (mergedConfig example_env ?c2)) \<notin> set (route (heap s2 ! 0) Warn)"
    using sev T3 by (simp add: Let_def pth lv(2) en(2) override_simps)
  show ?thesis
    using lf lf2 en(1) de A B by (simp add: il il2)
qed

end
